theory Spec2Isabelle
  imports Main "HOL-Library.Char_ord" "HOL-Library.List_Lexorder" "HOL-Library.AList"
begin

section \<open>MatchLife backend: data model (schemas.py)\<close>

text \<open>
  Python strings are modelled as \<^typ>\<open>string\<close>, the UTF-8 bytes of the text. The order of
  Python strings (by code point) is the lexicographic order of their UTF-8 bytes, which is
  the order \<^theory_text>\<open>List_Lexorder\<close> and \<^theory_text>\<open>Char_ord\<close> give to \<^typ>\<open>string\<close>.
\<close>

text \<open>The \<open>Literal[...]\<close> types of schemas.py, lines 10-22, with the string each value is.\<close>

datatype Religion =
  Islam | Katolik | Protestan | Hindu | Budha | Khonghucu | Agnostik | Lainnya

fun Religion_str :: "Religion \<Rightarrow> string" where
  "Religion_str Islam = ''Islam''"
| "Religion_str Katolik = ''Katolik''"
| "Religion_str Protestan = ''Protestan''"
| "Religion_str Hindu = ''Hindu''"
| "Religion_str Budha = ''Budha''"
| "Religion_str Khonghucu = ''Khonghucu''"
| "Religion_str Agnostik = ''Agnostik''"
| "Religion_str Lainnya = ''Lainnya''"

datatype Religiosity = Tidak_menjalankan | Religiosity_moderat | Strict

fun Religiosity_str :: "Religiosity \<Rightarrow> string" where
  "Religiosity_str Tidak_menjalankan = ''tidak menjalankan''"
| "Religiosity_str Religiosity_moderat = ''moderat''"
| "Religiosity_str Strict = ''strict''"

datatype MaritalStatus = Lajang | Duda | Janda

datatype LifestyleSmoking = Smoking_tidak | Smoking_kadang | Smoking_sering

fun LifestyleSmoking_str :: "LifestyleSmoking \<Rightarrow> string" where
  "LifestyleSmoking_str Smoking_tidak = ''tidak''"
| "LifestyleSmoking_str Smoking_kadang = ''kadang''"
| "LifestyleSmoking_str Smoking_sering = ''sering''"

datatype LifestyleAlcohol = Alcohol_tidak | Alcohol_sosial | Alcohol_sering

fun LifestyleAlcohol_str :: "LifestyleAlcohol \<Rightarrow> string" where
  "LifestyleAlcohol_str Alcohol_tidak = ''tidak''"
| "LifestyleAlcohol_str Alcohol_sosial = ''sosial''"
| "LifestyleAlcohol_str Alcohol_sering = ''sering''"

datatype Diet = Bebas | Vegetarian | Vegan | Halal | Diet_lainnya

fun Diet_str :: "Diet \<Rightarrow> string" where
  "Diet_str Bebas = ''bebas''"
| "Diet_str Vegetarian = ''vegetarian''"
| "Diet_str Vegan = ''vegan''"
| "Diet_str Halal = ''halal''"
| "Diet_str Diet_lainnya = ''lainnya''"

datatype PhysicalActivity = Rendah | Sedang | Tinggi

fun PhysicalActivity_str :: "PhysicalActivity \<Rightarrow> string" where
  "PhysicalActivity_str Rendah = ''rendah''"
| "PhysicalActivity_str Sedang = ''sedang''"
| "PhysicalActivity_str Tinggi = ''tinggi''"

datatype SleepHabit = Malam | Pagi | Fleksibel

fun SleepHabit_str :: "SleepHabit \<Rightarrow> string" where
  "SleepHabit_str Malam = ''malam''"
| "SleepHabit_str Pagi = ''pagi''"
| "SleepHabit_str Fleksibel = ''fleksibel''"

datatype TimeManagement = Terencana | Spontan | Campuran

fun TimeManagement_str :: "TimeManagement \<Rightarrow> string" where
  "TimeManagement_str Terencana = ''terencana''"
| "TimeManagement_str Spontan = ''spontan''"
| "TimeManagement_str Campuran = ''campuran''"

datatype ShoppingHabit = Hemat | Shopping_moderat | Boros

fun ShoppingHabit_str :: "ShoppingHabit \<Rightarrow> string" where
  "ShoppingHabit_str Hemat = ''hemat''"
| "ShoppingHabit_str Shopping_moderat = ''moderat''"
| "ShoppingHabit_str Boros = ''boros''"

text \<open>\<open>class Lifestyle(BaseModel)\<close>, schemas.py lines 24-31: seven fields, none optional.\<close>

record Lifestyle =
  merokok :: LifestyleSmoking
  alkohol :: LifestyleAlcohol
  pola_makan :: Diet
  aktivitas_fisik :: PhysicalActivity
  kebiasaan_tidur :: SleepHabit
  pengelolaan_waktu :: TimeManagement
  kebiasaan_belanja :: ShoppingHabit

text \<open>\<open>class SocialLinks(BaseModel)\<close>, schemas.py lines 33-38.\<close>

record SocialLinks =
  instagram :: "string option"
  facebook :: "string option"
  twitter :: "string option"
  linkedin :: "string option"
  tiktok :: "string option"

text \<open>\<open>datetime.date\<close>: a year, a month and a day.\<close>

record date =
  year :: int
  month :: int
  day :: int

text \<open>\<open>class User(BaseModel)\<close>, schemas.py lines 40-71: the stored profile document.\<close>

record User =
  email :: string
  name :: string
  tanggal_lahir :: date
  status :: MaritalStatus
  agama :: Religion
  level_agama :: Religiosity
  suku :: "string option"
  hobi :: "string list"
  tinggi_cm :: "int option"
  berat_kg :: "int option"
  berkacamata :: "bool option"
  alamat_asli :: "string option"
  alamat_domisili :: "string option"
  jumlah_saudara :: "int option"
  kondisi_keluarga :: "string option"
  riwayat_penyakit :: "string option"
  pekerjaan :: "string option"
  usaha_sampingan :: "string option"
  pendapatan_per_bulan :: "int option"
  pendidikan :: "string option"
  bahasa :: "string list"
  rencana_anak :: "string option"
  love_language :: "string option"
  lifestyle :: Lifestyle
  social :: SocialLinks
  kota :: "string option"
  foto_url :: "string option"
  verified :: bool
  approved :: bool
  liked_user_ids :: "string list"
  matches :: "string list"

text \<open>\<open>class SearchQuery(BaseModel)\<close>, schemas.py lines 86-95: every field optional. The
  fields \<open>agama\<close>, \<open>level_agama\<close>, \<open>pekerjaan\<close>, \<open>pendidikan\<close> and \<open>lifestyle\<close>, whose
  names \<open>User\<close> has too, carry the prefix \<open>q_\<close> here.\<close>

record SearchQuery =
  usia_min :: "int option"
  usia_max :: "int option"
  lokasi :: "string option"
  q_agama :: "Religion option"
  q_level_agama :: "Religiosity option"
  q_pekerjaan :: "string option"
  pendapatan_min :: "int option"
  q_pendidikan :: "string option"
  q_lifestyle :: "Lifestyle option"

text \<open>
  The lifestyle object of a search request as the client sent it, before validation: any
  subset of the seven sub-attributes. Pydantic builds the \<open>Lifestyle\<close> instance from it
  and fills every missing field with the default of its \<open>Field(default=...)\<close>.
\<close>

record LifestyleInput =
  given_merokok :: "LifestyleSmoking option"
  given_alkohol :: "LifestyleAlcohol option"
  given_pola_makan :: "Diet option"
  given_aktivitas_fisik :: "PhysicalActivity option"
  given_kebiasaan_tidur :: "SleepHabit option"
  given_pengelolaan_waktu :: "TimeManagement option"
  given_kebiasaan_belanja :: "ShoppingHabit option"

definition Lifestyle_validate :: "LifestyleInput \<Rightarrow> Lifestyle" where
  "Lifestyle_validate i =
     \<lparr> merokok = (case given_merokok i of None \<Rightarrow> Smoking_tidak | Some v \<Rightarrow> v),
       alkohol = (case given_alkohol i of None \<Rightarrow> Alcohol_tidak | Some v \<Rightarrow> v),
       pola_makan = (case given_pola_makan i of None \<Rightarrow> Bebas | Some v \<Rightarrow> v),
       aktivitas_fisik = (case given_aktivitas_fisik i of None \<Rightarrow> Sedang | Some v \<Rightarrow> v),
       kebiasaan_tidur = (case given_kebiasaan_tidur i of None \<Rightarrow> Fleksibel | Some v \<Rightarrow> v),
       pengelolaan_waktu = (case given_pengelolaan_waktu i of None \<Rightarrow> Campuran | Some v \<Rightarrow> v),
       kebiasaan_belanja = (case given_kebiasaan_belanja i of None \<Rightarrow> Shopping_moderat | Some v \<Rightarrow> v) \<rparr>"

section \<open>Errors and values\<close>

text \<open>
  \<open>HTTPException(status_code, detail)\<close> is what the handlers raise; \<open>ValueError\<close> is
  what \<open>datetime.date(...)\<close> raises on a date that does not exist and no handler catches;
  \<open>OverflowError\<close> is what it raises on a year that does not fit a C \<open>int\<close>;
  \<open>ValidationError\<close> is what pydantic raises when a value is outside the declared type of
  its field.
\<close>

datatype error = HTTPException nat string | ValueError | OverflowError | ValidationError

text \<open>The values of a filter dictionary (\<open>Dict[str, Any]\<close>): booleans, strings, integers
  and nested dictionaries. A dictionary is the list of its items in insertion order;
  \<open>d[k] = v\<close> is \<^const>\<open>AList.update\<close>, which replaces in place or appends.\<close>

datatype fval = VBool bool | VStr string | VInt int | VDict "(string \<times> fval) list"

type_synonym filter_dict = "(string \<times> fval) list"

section \<open>Dates\<close>

definition is_leap :: "int \<Rightarrow> bool" where
  "is_leap y = (y mod 4 = 0 \<and> (y mod 100 \<noteq> 0 \<or> y mod 400 = 0))"

definition days_in_month :: "int \<Rightarrow> int \<Rightarrow> int" where
  "days_in_month y m =
     (if m = 2 then (if is_leap y then 29 else 28)
      else if m = 4 \<or> m = 6 \<or> m = 9 \<or> m = 11 then 30 else 31)"

text \<open>The constructor \<open>date(year, month, day)\<close>: years 1 to 9999, months 1 to 12 and a day
  of that month, and \<open>ValueError\<close> otherwise. The arguments are taken as C \<open>int\<close>s of 32
  bits first; the handler passes the month and the day of a date, which fit, and a year it
  has computed, which may not.\<close>

definition py_date :: "int \<Rightarrow> int \<Rightarrow> int \<Rightarrow> error + date" where
  "py_date y m d =
     (if y < - 2147483648 \<or> 2147483647 < y then Inl OverflowError
      else if 1 \<le> y \<and> y \<le> 9999 \<and> 1 \<le> m \<and> m \<le> 12 \<and> 1 \<le> d \<and> d \<le> days_in_month y m
      then Inr \<lparr> year = y, month = m, day = d \<rparr>
      else Inl ValueError)"

definition digit :: "nat \<Rightarrow> char" where
  "digit n = ''0123456789'' ! (n mod 10)"

text \<open>\<open>date.isoformat()\<close>: \<open>YYYY-MM-DD\<close>, zero padded.\<close>

definition isoformat :: "date \<Rightarrow> string" where
  "isoformat t =
     (let y = nat (year t); m = nat (month t); d = nat (day t)
      in [digit (y div 1000), digit (y div 100), digit (y div 10), digit y, CHR ''-'',
          digit (m div 10), digit m, CHR ''-'', digit (d div 10), digit d])"

section \<open>Search Predicate Builder (main.py, search\_profiles, lines 109-137)\<close>

text \<open>Lines 113-120: the conditions on the birth date.\<close>

definition age_conditions :: "date \<Rightarrow> SearchQuery \<Rightarrow> error + filter_dict" where
  "age_conditions today q =
     (case (case usia_min q of
              None \<Rightarrow> Inr []
            | Some a \<Rightarrow>
                (case py_date (year today - a) (month today) (day today) of
                   Inl e \<Rightarrow> Inl e
                 | Inr max_birth \<Rightarrow> Inr (AList.update ''$lte'' (VStr (isoformat max_birth)) []))) of
        Inl e \<Rightarrow> Inl e
      | Inr conditions \<Rightarrow>
          (case usia_max q of
             None \<Rightarrow> Inr conditions
           | Some b \<Rightarrow>
               (case py_date (year today - b - 1) (month today) (day today) of
                  Inl e \<Rightarrow> Inl e
                | Inr min_birth \<Rightarrow>
                    Inr (AList.update ''$gte'' (VStr (isoformat min_birth)) conditions))))"

text \<open>\<open>{"$regex": s, "$options": "i"}\<close>\<close>

definition regex_i :: "string \<Rightarrow> fval" where
  "regex_i s = VDict [(''$regex'', VStr s), (''$options'', VStr ''i'')]"

text \<open>\<open>Lifestyle.model_dump(exclude_none=True)\<close>: the fields in declaration order, none
  of which can be \<open>None\<close>.\<close>

definition Lifestyle_model_dump :: "Lifestyle \<Rightarrow> filter_dict" where
  "Lifestyle_model_dump l =
     [(''merokok'', VStr (LifestyleSmoking_str (merokok l))),
      (''alkohol'', VStr (LifestyleAlcohol_str (alkohol l))),
      (''pola_makan'', VStr (Diet_str (pola_makan l))),
      (''aktivitas_fisik'', VStr (PhysicalActivity_str (aktivitas_fisik l))),
      (''kebiasaan_tidur'', VStr (SleepHabit_str (kebiasaan_tidur l))),
      (''pengelolaan_waktu'', VStr (TimeManagement_str (pengelolaan_waktu l))),
      (''kebiasaan_belanja'', VStr (ShoppingHabit_str (kebiasaan_belanja l)))]"

text \<open>Lines 122-133: the scalar filters. A text field counts when it is truthy, that is
  neither \<open>None\<close> nor the empty string; the numeric bound counts when it is not \<open>None\<close>.\<close>

definition scalar_filters :: "SearchQuery \<Rightarrow> filter_dict \<Rightarrow> filter_dict" where
  "scalar_filters q filters0 =
     (let filters1 = (case lokasi q of
                        None \<Rightarrow> filters0
                      | Some s \<Rightarrow> if s \<noteq> [] then AList.update ''kota'' (regex_i s) filters0
                                  else filters0);
          filters2 = (case q_agama q of
                        None \<Rightarrow> filters1
                      | Some r \<Rightarrow> AList.update ''agama'' (VStr (Religion_str r)) filters1);
          filters3 = (case q_level_agama q of
                        None \<Rightarrow> filters2
                      | Some r \<Rightarrow> AList.update ''level_agama'' (VStr (Religiosity_str r)) filters2);
          filters4 = (case q_pekerjaan q of
                        None \<Rightarrow> filters3
                      | Some s \<Rightarrow> if s \<noteq> [] then AList.update ''pekerjaan'' (regex_i s) filters3
                                  else filters3);
          filters5 = (case pendapatan_min q of
                        None \<Rightarrow> filters4
                      | Some n \<Rightarrow>
                          AList.update ''pendapatan_per_bulan'' (VDict [(''$gte'', VInt n)]) filters4);
          filters6 = (case q_pendidikan q of
                        None \<Rightarrow> filters5
                      | Some s \<Rightarrow> if s \<noteq> [] then AList.update ''pendidikan'' (regex_i s) filters5
                                  else filters5)
      in filters6)"

text \<open>Lines 135-137: the loop over the dumped lifestyle.\<close>

definition lifestyle_filters :: "SearchQuery \<Rightarrow> filter_dict \<Rightarrow> filter_dict" where
  "lifestyle_filters q filters =
     (case q_lifestyle q of
        None \<Rightarrow> filters
      | Some l \<Rightarrow>
          fold (\<lambda>(k, v) f. AList.update (''lifestyle.'' @ k) v f) (Lifestyle_model_dump l) filters)"

text \<open>Lines 109-137: the filter dictionary handed to the store; \<open>today\<close> is
  \<open>date.today()\<close>.\<close>

definition search_filters :: "date \<Rightarrow> SearchQuery \<Rightarrow> error + filter_dict" where
  "search_filters today q =
     (let filters = [(''approved'', VBool True)]
      in case (if usia_min q \<noteq> None \<or> usia_max q \<noteq> None
               then (case age_conditions today q of
                       Inl e \<Rightarrow> Inl e
                     | Inr conditions \<Rightarrow>
                         Inr (AList.update ''tanggal_lahir'' (VDict conditions) filters))
               else Inr filters) of
           Inl e \<Rightarrow> Inl e
         | Inr filters' \<Rightarrow> Inr (lifestyle_filters q (scalar_filters q filters')))"

text \<open>
  Three notions for the statements about the builder. \<open>text_constraint t\<close> is what lines
  122-133 make of a free-text field: nothing when the field is omitted or empty, the
  case-insensitive pattern otherwise. \<open>opt_update k vo al\<close> is the assignment \<open>al[k] = v\<close> when
  there is a value \<open>v\<close> to assign, and \<open>al\<close> otherwise. \<open>builder_keys\<close> are the keys the
  builder writes outside the lifestyle loop.
\<close>

definition text_constraint :: "string option \<Rightarrow> fval option" where
  "text_constraint t =
     (case t of None \<Rightarrow> None | Some s \<Rightarrow> if s = [] then None else Some (regex_i s))"

definition opt_update :: "string \<Rightarrow> fval option \<Rightarrow> filter_dict \<Rightarrow> filter_dict" where
  "opt_update k vo al = (case vo of None \<Rightarrow> al | Some v \<Rightarrow> AList.update k v al)"

definition builder_keys :: "string list" where
  "builder_keys = [''approved'', ''tanggal_lahir'', ''kota'', ''agama'', ''level_agama'',
     ''pekerjaan'', ''pendapatan_per_bulan'', ''pendidikan'']"

section \<open>The store\<close>

text \<open>
  \<open>bson.ObjectId\<close> is a library type: the handlers take its constructor as the parameter
  \<open>ObjectId\<close>, which returns \<open>None\<close> where the library raises. Lines 32-36 of main.py:
\<close>

definition oid :: "(string \<Rightarrow> 'oid option) \<Rightarrow> string \<Rightarrow> error + 'oid" where
  "oid ObjectId id_str =
     (case ObjectId id_str of
        None \<Rightarrow> Inl (HTTPException 400 ''Invalid ID'')
      | Some x \<Rightarrow> Inr x)"

text \<open>The message document built by \<open>send_message\<close> (lines 199-204); its key \<open>text\<close> is
  the field \<open>msg_text\<close>, and \<open>created_at\<close> is \<open>datetime.utcnow()\<close>, a count of
  microseconds.\<close>

type_synonym datetime = int

record Message_doc =
  match_id :: string
  sender_id :: string
  msg_text :: string
  created_at :: datetime

text \<open>The database: the collection \<open>user\<close>, one document per \<open>_id\<close>, and the collection
  \<open>message\<close> in insertion order.\<close>

record 'oid db =
  user :: "'oid \<rightharpoonup> User"
  message :: "Message_doc list"

text \<open>\<open>$addToSet\<close> on an array: the value is appended unless it is present.\<close>

definition addToSet :: "string \<Rightarrow> string list \<Rightarrow> string list" where
  "addToSet v xs = (if v \<in> set xs then xs else xs @ [v])"

text \<open>\<open>db["user"].update_one({"_id": x}, ...)\<close>: the document with that \<open>_id\<close> is
  rewritten, and nothing happens when there is none.\<close>

definition update_one :: "'oid \<Rightarrow> (User \<Rightarrow> User) \<Rightarrow> 'oid db \<Rightarrow> 'oid db" where
  "update_one x f d =
     (case user d x of
        None \<Rightarrow> d
      | Some u \<Rightarrow> d\<lparr> user := (user d)(x \<mapsto> f u) \<rparr>)"

definition delete_one :: "'oid \<Rightarrow> 'oid db \<Rightarrow> 'oid db" where
  "delete_one x d = d\<lparr> user := (user d)(x := None) \<rparr>"

definition insert_one :: "Message_doc \<Rightarrow> 'oid db \<Rightarrow> 'oid db" where
  "insert_one m d = d\<lparr> message := message d @ [m] \<rparr>"

section \<open>Profile lookup (main.py, get\_profile, lines 98-103)\<close>

definition get_profile :: "(string \<Rightarrow> 'oid option) \<Rightarrow> 'oid db \<Rightarrow> string \<Rightarrow> error + User" where
  "get_profile ObjectId d uid =
     (case oid ObjectId uid of
        Inl e \<Rightarrow> Inl e
      | Inr x \<Rightarrow>
          (case user d x of
             None \<Rightarrow> Inl (HTTPException 404 ''User not found'')
           | Some doc \<Rightarrow> Inr doc))"

text \<open>The \<open>matches\<close> set and the \<open>liked_user_ids\<close> set of the profile stored under an
  identifier, empty when no profile is.\<close>

definition matches_of :: "'oid db \<Rightarrow> 'oid \<Rightarrow> string list" where
  "matches_of d x = (case user d x of None \<Rightarrow> [] | Some u \<Rightarrow> matches u)"

definition liked_of :: "'oid db \<Rightarrow> 'oid \<Rightarrow> string list" where
  "liked_of d x = (case user d x of None \<Rightarrow> [] | Some u \<Rightarrow> liked_user_ids u)"

section \<open>Like/Match Engine (main.py, like\_user, lines 145-161)\<close>

text \<open>\<open>class Like(BaseModel)\<close>, schemas.py lines 73-75.\<close>

record Like =
  from_user_id :: string
  to_user_id :: string

text \<open>Every handler returns the database it leaves behind together with its outcome, so
  that a raise after a write would be visible.\<close>

definition like_user ::
  "(string \<Rightarrow> 'oid option) \<Rightarrow> 'oid db \<Rightarrow> Like \<Rightarrow> 'oid db \<times> (error + bool)" where
  "like_user ObjectId d payload =
     (if from_user_id payload = to_user_id payload
      then (d, Inl (HTTPException 400 ''Cannot like yourself''))
      else
        case oid ObjectId (from_user_id payload) of
          Inl e \<Rightarrow> (d, Inl e)
        | Inr from_oid \<Rightarrow>
            (case oid ObjectId (to_user_id payload) of
               Inl e \<Rightarrow> (d, Inl e)
             | Inr to_oid \<Rightarrow>
                 (case (user d from_oid, user d to_oid) of
                    (Some u_from, Some u_to) \<Rightarrow>
                      let d1 = update_one from_oid
                                 (\<lambda>u. u\<lparr> liked_user_ids :=
                                           addToSet (to_user_id payload) (liked_user_ids u) \<rparr>) d;
                          is_mutual = (from_user_id payload \<in> set (liked_user_ids u_to))
                      in if is_mutual
                         then
                           let d2 = update_one from_oid
                                      (\<lambda>u. u\<lparr> matches :=
                                                addToSet (to_user_id payload) (matches u) \<rparr>) d1;
                               d3 = update_one to_oid
                                      (\<lambda>u. u\<lparr> matches :=
                                                addToSet (from_user_id payload) (matches u) \<rparr>) d2
                           in (d3, Inr True)
                         else (d1, Inr False)
                  | _ \<Rightarrow> (d, Inl (HTTPException 404 ''User not found'')))))"

text \<open>\<open>recordLike(fromId, toId)\<close>, the spec's name for the handler, with the two fields
  of its payload as arguments.\<close>

definition recordLike ::
  "(string \<Rightarrow> 'oid option) \<Rightarrow> 'oid db \<Rightarrow> string \<Rightarrow> string \<Rightarrow> 'oid db \<times> (error + bool)" where
  "recordLike ObjectId d fromId toId =
     like_user ObjectId d \<lparr> from_user_id = fromId, to_user_id = toId \<rparr>"

section \<open>Conversation identity and message log (main.py, lines 175 and 190-206)\<close>

text \<open>\<open>sep.join(xs)\<close>\<close>

fun str_join :: "string \<Rightarrow> string list \<Rightarrow> string" where
  "str_join sep [] = []"
| "str_join sep [x] = x"
| "str_join sep (x # y # ys) = x @ sep @ str_join sep (y # ys)"

text \<open>\<open>"-".join(sorted([a, b]))\<close>, the expression of lines 175 and 198.\<close>

definition conversationKey :: "string \<Rightarrow> string \<Rightarrow> string" where
  "conversationKey a b = str_join ''-'' (sort [a, b])"

text \<open>\<open>class SendMessage(BaseModel)\<close>, main.py lines 184-187; the fields carry the prefix
  \<open>sm_\<close>, two of their names being fields of \<open>Like\<close>.\<close>

record SendMessage =
  sm_from_user_id :: string
  sm_to_user_id :: string
  sm_text :: string

text \<open>\<open>now\<close> is \<open>datetime.utcnow()\<close> at line 203.\<close>

definition send_message ::
  "(string \<Rightarrow> 'oid option) \<Rightarrow> datetime \<Rightarrow> 'oid db \<Rightarrow> SendMessage \<Rightarrow> 'oid db \<times> (error + bool)" where
  "send_message ObjectId now d payload =
     (case oid ObjectId (sm_from_user_id payload) of
        Inl e \<Rightarrow> (d, Inl e)
      | Inr from_oid \<Rightarrow>
          (case user d from_oid of
             None \<Rightarrow> (d, Inl (HTTPException 404 ''Sender not found''))
           | Some u_from \<Rightarrow>
               if sm_to_user_id payload \<notin> set (matches u_from)
               then (d, Inl (HTTPException 403 ''You can only message matched users''))
               else
                 let doc = \<lparr> match_id = conversationKey (sm_from_user_id payload)
                                            (sm_to_user_id payload),
                             sender_id = sm_from_user_id payload,
                             msg_text = sm_text payload,
                             created_at = now \<rparr>
                 in (insert_one doc d, Inr True)))"

section \<open>Admin Action Processor (main.py, admin\_action, lines 216-231)\<close>

text \<open>\<open>class AdminAction\<close>, schemas.py lines 82-84. At run time \<open>action\<close> is a string: the
  handler compares it with four strings and has a branch for every other value.\<close>

record AdminAction =
  user_id :: string
  action :: string

text \<open>The values of \<open>Literal["approve", "reject", "verify", "unverify"]\<close>, and the
  construction of an \<open>AdminAction\<close> from the two strings of a request, which pydantic
  refuses when the action is not one of them.\<close>

definition AdminAction_actions :: "string list" where
  "AdminAction_actions = [''approve'', ''reject'', ''verify'', ''unverify'']"

definition AdminAction_validate :: "string \<Rightarrow> string \<Rightarrow> error + AdminAction" where
  "AdminAction_validate uid act =
     (if act \<in> set AdminAction_actions
      then Inr \<lparr> user_id = uid, action = act \<rparr>
      else Inl ValidationError)"

definition admin_action ::
  "(string \<Rightarrow> 'oid option) \<Rightarrow> 'oid db \<Rightarrow> AdminAction \<Rightarrow> 'oid db \<times> (error + bool)" where
  "admin_action ObjectId d a =
     (case oid ObjectId (user_id a) of
        Inl e \<Rightarrow> (d, Inl e)
      | Inr x \<Rightarrow>
          (case user d x of
             None \<Rightarrow> (d, Inl (HTTPException 404 ''User not found''))
           | Some u \<Rightarrow>
               if action a = ''approve''
               then (update_one x (\<lambda>u. u\<lparr> approved := True \<rparr>) d, Inr True)
               else if action a = ''reject''
               then (delete_one x d, Inr True)
               else if action a = ''verify''
               then (update_one x (\<lambda>u. u\<lparr> verified := True \<rparr>) d, Inr True)
               else if action a = ''unverify''
               then (update_one x (\<lambda>u. u\<lparr> verified := False \<rparr>) d, Inr True)
               else (d, Inl (HTTPException 400 ''Unknown action''))))"

text \<open>The route \<open>POST /api/admin/action\<close> (line 215): the payload is built first, and the
  handler runs on the payload that was built.\<close>

definition api_admin_action ::
  "(string \<Rightarrow> 'oid option) \<Rightarrow> 'oid db \<Rightarrow> string \<Rightarrow> string \<Rightarrow> 'oid db \<times> (error + bool)" where
  "api_admin_action ObjectId d uid act =
     (case AdminAction_validate uid act of
        Inl e \<Rightarrow> (d, Inl e)
      | Inr a \<Rightarrow> admin_action ObjectId d a)"

section \<open>Checkout (main.py, lines 14 and 54-78)\<close>

text \<open>\<open>os.getenv(key, default)\<close> over the environment.\<close>

definition getenv :: "(string \<rightharpoonup> string) \<Rightarrow> string \<Rightarrow> string \<Rightarrow> string" where
  "getenv env k dflt = (case env k of None \<Rightarrow> dflt | Some v \<Rightarrow> v)"

text \<open>Line 14: the module global \<open>STRIPE_API_KEY\<close>, read once from the environment the
  module is imported in.\<close>

definition STRIPE_API_KEY :: "(string \<rightharpoonup> string) \<Rightarrow> string" where
  "STRIPE_API_KEY import_env = getenv import_env ''STRIPE_API_KEY'' []"

text \<open>
  \<open>stripe_create success_url cancel_url customer_email\<close> stands for the call
  \<open>stripe.checkout.Session.create(...)\<close>, whose other arguments are constants: it returns the
  session's URL, or the message of the exception it raises. The handler returns the calls it
  made to the provider, in order, together with its outcome. \<open>import_env\<close> is the
  environment at import, \<open>env\<close> the environment at the call, where lines 72-73 read
  \<open>FRONTEND_URL\<close>.
\<close>

type_synonym provider_call = "string \<times> string \<times> string"

definition create_checkout_session ::
  "(string \<rightharpoonup> string) \<Rightarrow> (string \<rightharpoonup> string)
     \<Rightarrow> (string \<Rightarrow> string \<Rightarrow> string \<Rightarrow> string + string) \<Rightarrow> string
     \<Rightarrow> provider_call list \<times> (error + string)" where
  "create_checkout_session import_env env stripe_create payload_email =
     (if STRIPE_API_KEY import_env = []
      then ([], Inr (''/onboarding?email='' @ payload_email))
      else
        let success_url = getenv env ''FRONTEND_URL'' ''http://localhost:3000''
                            @ ''/onboarding?email='' @ payload_email;
            cancel_url = getenv env ''FRONTEND_URL'' ''http://localhost:3000'' @ ''/''
        in ([(success_url, cancel_url, payload_email)],
            case stripe_create success_url cancel_url payload_email of
              Inl msg \<Rightarrow> Inl (HTTPException 500 msg)
            | Inr url \<Rightarrow> Inr url))"

section \<open>The query parameters of a URL\<close>

text \<open>
  The repository never reads a URL. The definitions of this section are the reader's side
  of the sentence "a direct onboarding URL carrying the email as a query parameter": how a
  URL is taken apart (RFC 3986, and the form encoding of query strings). The fragment
  starts at the first \<open>#\<close>, the query at the first \<open>?\<close> before it; the query is a list of
  \<open>name=value\<close> pairs separated by \<open>&\<close>; in a name and in a value \<open>+\<close> is a space and
  \<open>%XY\<close> is the character with the hexadecimal code \<open>XY\<close>.
\<close>

definition hexval :: "char \<Rightarrow> nat option" where
  "hexval c =
     (if c \<in> set ''0123456789'' then Some (of_char c - 48)
      else if c \<in> set ''abcdef'' then Some (of_char c - 87)
      else if c \<in> set ''ABCDEF'' then Some (of_char c - 55)
      else None)"

fun unquote_plus :: "string \<Rightarrow> string" where
  "unquote_plus [] = []"
| "unquote_plus [c] = (if c = CHR ''+'' then '' '' else [c])"
| "unquote_plus [c, a] =
     (if c = CHR ''+'' then CHR '' '' # unquote_plus [a] else c # unquote_plus [a])"
| "unquote_plus (c # a # b # r) =
     (if c = CHR ''+'' then CHR '' '' # unquote_plus (a # b # r)
      else if c = CHR ''%'' then
        (case (hexval a, hexval b) of
           (Some h, Some l) \<Rightarrow> char_of (16 * h + l) # unquote_plus r
         | _ \<Rightarrow> c # unquote_plus (a # b # r))
      else c # unquote_plus (a # b # r))"

text \<open>\<open>s.split(c)\<close>\<close>

fun split_on :: "char \<Rightarrow> string \<Rightarrow> string list" where
  "split_on c [] = [[]]"
| "split_on c (x # xs) =
     (if x = c then [] # split_on c xs
      else (case split_on c xs of
              [] \<Rightarrow> [[x]]
            | y # ys \<Rightarrow> (x # y) # ys))"

definition before :: "char \<Rightarrow> string \<Rightarrow> string" where
  "before c s = takeWhile (\<lambda>x. x \<noteq> c) s"

definition after :: "char \<Rightarrow> string \<Rightarrow> string" where
  "after c s = drop 1 (dropWhile (\<lambda>x. x \<noteq> c) s)"

definition url_query :: "string \<Rightarrow> string" where
  "url_query url = after CHR ''?'' (before CHR ''#'' url)"

definition parse_qsl :: "string \<Rightarrow> (string \<times> string) list" where
  "parse_qsl q =
     map (\<lambda>p. (unquote_plus (before CHR ''='' p), unquote_plus (after CHR ''='' p)))
       (filter (\<lambda>p. p \<noteq> []) (split_on CHR ''&'' q))"

text \<open>The value of the parameter \<open>k\<close> of a URL: that of its first occurrence.\<close>

definition query_param :: "string \<Rightarrow> string \<Rightarrow> string option" where
  "query_param k url = map_of (parse_qsl (url_query url)) k"

text \<open>The outcome of a checkout is a URL whose parameter \<open>email\<close> is \<open>em\<close>.\<close>

definition carries_email :: "string \<Rightarrow> error + string \<Rightarrow> bool" where
  "carries_email em r =
     (case r of
        Inl e \<Rightarrow> False
      | Inr url \<Rightarrow> query_param ''email'' url = Some em)"

section \<open>Profile Store: find by filter set\<close>

text \<open>
  Modelled from the spec: the module \<open>database\<close> (\<open>get_documents\<close>, \<open>db\<close>) is imported by
  main.py and is not among the sources. The spec gives the store the operation
  \<open>findByFilterSet(predicates) -> sequence of Profile\<close> (section 6), which returns the
  profiles that satisfy "the conjunction" of the predicate set (section 4.1), in the store's
  order. How the store tests one predicate against one stored profile is its own affair
  and is the parameter \<open>holds\<close>; \<open>docs\<close> are the documents of the collection with their
  identifiers.
\<close>

definition get_documents ::
  "(User \<Rightarrow> string \<times> fval \<Rightarrow> bool) \<Rightarrow> ('oid \<times> User) list \<Rightarrow> filter_dict
     \<Rightarrow> ('oid \<times> User) list" where
  "get_documents holds docs filters =
     filter (\<lambda>(i, u). list_all (holds u) filters) docs"

text \<open>main.py, search\_profiles, lines 107-141: the builder, then the store.\<close>

definition search_profiles ::
  "(User \<Rightarrow> string \<times> fval \<Rightarrow> bool) \<Rightarrow> date \<Rightarrow> ('oid \<times> User) list \<Rightarrow> SearchQuery
     \<Rightarrow> error + ('oid \<times> User) list" where
  "search_profiles holds today docs q =
     (case search_filters today q of
        Inl e \<Rightarrow> Inl e
      | Inr filters \<Rightarrow> Inr (get_documents holds docs filters))"

section \<open>Concrete inputs\<close>

text \<open>The query that supplies no field.\<close>

definition no_fields :: SearchQuery where
  "no_fields =
     \<lparr> usia_min = None, usia_max = None, lokasi = None, q_agama = None,
       q_level_agama = None, q_pekerjaan = None, pendapatan_min = None,
       q_pendidikan = None, q_lifestyle = None \<rparr>"

text \<open>The lifestyle object that supplies no sub-attribute.\<close>

definition no_lifestyle :: LifestyleInput where
  "no_lifestyle =
     \<lparr> given_merokok = None, given_alkohol = None, given_pola_makan = None,
       given_aktivitas_fisik = None, given_kebiasaan_tidur = None,
       given_pengelolaan_waktu = None, given_kebiasaan_belanja = None \<rparr>"

text \<open>Two days: an ordinary one and a leap day.\<close>

definition day_2024_06_15 :: date where
  "day_2024_06_15 = \<lparr> year = 2024, month = 6, day = 15 \<rparr>"

definition day_2024_02_29 :: date where
  "day_2024_02_29 = \<lparr> year = 2024, month = 2, day = 29 \<rparr>"

text \<open>A profile with the defaults of the schema, born on 15 March 1994.\<close>

definition sample_user :: User where
  "sample_user =
     \<lparr> email = ''a@example.org'', name = ''A'',
       tanggal_lahir = \<lparr> year = 1994, month = 3, day = 15 \<rparr>,
       status = Lajang, agama = Islam, level_agama = Religiosity_moderat,
       suku = None, hobi = [], tinggi_cm = None, berat_kg = None, berkacamata = None,
       alamat_asli = None, alamat_domisili = None, jumlah_saudara = None,
       kondisi_keluarga = None, riwayat_penyakit = None, pekerjaan = None,
       usaha_sampingan = None, pendapatan_per_bulan = None, pendidikan = None,
       bahasa = [], rencana_anak = None, love_language = None,
       lifestyle = Lifestyle_validate no_lifestyle,
       social = \<lparr> instagram = None, facebook = None, twitter = None, linkedin = None,
                  tiktok = None \<rparr>,
       kota = None, foto_url = None, verified = False, approved = False,
       liked_user_ids = [], matches = [] \<rparr>"

text \<open>A store for the examples: it knows the predicate \<open>approved = b\<close> and no other.\<close>

fun holds_approved :: "User \<Rightarrow> string \<times> fval \<Rightarrow> bool" where
  "holds_approved u (k, VBool b) = (k = ''approved'' \<and> approved u = b)"
| "holds_approved u (k, c) = False"

text \<open>A constructor of identifiers for the examples. It is not the library's: it accepts
  the strings of 24 hexadecimal digits, which \<open>bson.ObjectId\<close> accepts too, and no other
  string, and the identifier is the string in lower case.\<close>

definition lower_hex :: "char \<Rightarrow> char" where
  "lower_hex c = (if c \<in> set ''ABCDEF'' then char_of (of_char c + (32::nat)) else c)"

definition ObjectId24 :: "string \<Rightarrow> string option" where
  "ObjectId24 s =
     (if length s = 24 \<and> list_all (\<lambda>c. hexval c \<noteq> None) s then Some (map lower_hex s)
      else None)"

definition id_A :: string where
  "id_A = ''64b000000000000000000001''"

definition id_B :: string where
  "id_B = ''64b000000000000000000002''"

definition id_C :: string where
  "id_C = ''64b000000000000000000003''"

text \<open>A database with two profiles and no message; \<open>id_C\<close> is the identifier of none.\<close>

definition sample_db :: "string db" where
  "sample_db =
     \<lparr> user = [id_A \<mapsto> sample_user,
               id_B \<mapsto> sample_user\<lparr> email := ''b@example.org'', name := ''B'' \<rparr>],
       message = [] \<rparr>"

text \<open>The same database once A and B have liked each other.\<close>

definition matched_db :: "string db" where
  "matched_db =
     \<lparr> user = [id_A \<mapsto> sample_user\<lparr> liked_user_ids := [id_B], matches := [id_B] \<rparr>,
               id_B \<mapsto> sample_user\<lparr> email := ''b@example.org'', name := ''B'',
                                      liked_user_ids := [id_A], matches := [id_A] \<rparr>],
       message = [] \<rparr>"

text \<open>A payment provider for the examples: it always fails.\<close>

definition failing_provider :: "string \<Rightarrow> string \<Rightarrow> string \<Rightarrow> string + string" where
  "failing_provider success_url cancel_url customer_email = Inl ''provider down''"

section \<open>Properties\<close>

subsection \<open>Conversation key\<close>

text \<open>
  Claim C6. The conversation key is a total function of the two identifiers, it does not
  depend on their order, and it is the smaller identifier, the delimiter \<open>-\<close> and the
  larger identifier, in that order.
\<close>

theorem conversationKey_symmetric:
  "conversationKey a b = conversationKey b a
   \<and> conversationKey a b = min a b @ ''-'' @ max a b"
  by (auto simp: conversationKey_def min_def max_def)

theorem conversationKey_symmetric_witness:
  "conversationKey id_B id_A = conversationKey id_A id_B
   \<and> conversationKey id_B id_A = ''64b000000000000000000001-64b000000000000000000002''"
proof -
  have m: "min id_B id_A = id_A" "max id_B id_A = id_B"
    by (simp_all add: min_def max_def id_A_def id_B_def)
  from conversationKey_symmetric [of id_B id_A] show ?thesis
    unfolding m by (auto simp: id_A_def id_B_def)
qed

subsection \<open>Checkout without a payment key\<close>

lemma before_absent: "c \<notin> set s \<Longrightarrow> before c s = s"
  by (induction s) (auto simp: before_def)

lemma before_append: "c \<notin> set s \<Longrightarrow> before c (s @ c # t) = s"
  by (induction s) (auto simp: before_def)

lemma after_append: "c \<notin> set s \<Longrightarrow> after c (s @ c # t) = t"
  by (induction s) (auto simp: after_def)

lemma split_on_absent: "c \<notin> set s \<Longrightarrow> split_on c s = [s]"
  by (induction s) auto

lemma unquote_plus_plain:
  "CHR ''+'' \<notin> set s \<Longrightarrow> CHR ''%'' \<notin> set s \<Longrightarrow> unquote_plus s = s"
  by (induction s rule: unquote_plus.induct) auto

lemma query_param_email:
  assumes "set em \<inter> set ''#&+%'' = {}"
  shows "query_param ''email'' (''/onboarding?email='' @ em) = Some em"
proof -
  from assms have h: "CHR ''#'' \<notin> set em" "CHR ''&'' \<notin> set em" "CHR ''+'' \<notin> set em"
    "CHR ''%'' \<notin> set em" by auto
  have "CHR ''#'' \<notin> set (''/onboarding?email='' @ em)" using h(1) by simp
  then have b: "before CHR ''#'' (''/onboarding?email='' @ em) = ''/onboarding?email='' @ em"
    by (rule before_absent)
  have a: "after CHR ''?'' (''/onboarding'' @ CHR ''?'' # (''email='' @ em)) = ''email='' @ em"
    by (rule after_append) simp
  have q: "url_query (''/onboarding?email='' @ em) = ''email='' @ em"
    unfolding url_query_def b using a by simp
  have "CHR ''&'' \<notin> set (''email='' @ em)" using h(2) by simp
  then have s: "split_on CHR ''&'' (''email='' @ em) = [''email='' @ em]"
    by (rule split_on_absent)
  have k: "before CHR ''='' (''email'' @ CHR ''='' # em) = ''email''"
    by (rule before_append) simp
  have v: "after CHR ''='' (''email'' @ CHR ''='' # em) = em"
    by (rule after_append) simp
  have u: "unquote_plus em = em" using h(3,4) by (rule unquote_plus_plain)
  have "parse_qsl (''email='' @ em) = [(''email'', em)]"
    unfolding parse_qsl_def s using k v u by simp
  then show ?thesis unfolding query_param_def q by simp
qed

text \<open>
  Claim C9, as the spec states it, fails: the handler appends the email to the URL as it
  is, so for the email \<open>a#b@example.org\<close> and no payment key the URL returned is
  \<open>/onboarding?email=a#b@example.org\<close>, whose parameter \<open>email\<close> is \<open>a\<close> and not the
  email given.
\<close>

theorem checkout_email_parameter_counterexample:
  "create_checkout_session Map.empty Map.empty failing_provider ''a#b@example.org''
     = ([], Inr ''/onboarding?email=a#b@example.org'')
   \<and> query_param ''email'' ''/onboarding?email=a#b@example.org'' = Some ''a''
   \<and> \<not> carries_email ''a#b@example.org''
         (snd (create_checkout_session Map.empty Map.empty failing_provider
                 ''a#b@example.org''))"
  by (simp add: create_checkout_session_def STRIPE_API_KEY_def getenv_def carries_email_def
      query_param_def url_query_def before_def after_def parse_qsl_def)

text \<open>The same happens with the other three characters that a query string reserves.\<close>

lemma checkout_email_other_reserved_characters:
  "query_param ''email'' ''/onboarding?email=tom&jerry@example.org'' = Some ''tom''"
  "query_param ''email'' ''/onboarding?email=a+b@example.org'' = Some ''a b@example.org''"
  "query_param ''email'' ''/onboarding?email=a%40b@example.org'' = Some ''a@b@example.org''"
  by code_simp+

text \<open>
  Claim C9, amended. When the environment the module was imported in holds no
  \<open>STRIPE_API_KEY\<close> (or an empty one), then for every email, every environment at the call
  and every payment provider, the checkout does not fail, makes no call to the provider
  and returns the text \<open>/onboarding?email=\<close> followed by the email as it was given; the
  parameter \<open>email\<close> of that URL is the email given whenever the email holds none of the
  characters \<open>#\<close>, \<open>&\<close>, \<open>+\<close> and \<open>%\<close>.
\<close>

theorem checkout_without_key:
  assumes "import_env ''STRIPE_API_KEY'' = None \<or> import_env ''STRIPE_API_KEY'' = Some []"
  shows "create_checkout_session import_env env stripe_create em
           = ([], Inr (''/onboarding?email='' @ em))
         \<and> (set em \<inter> set ''#&+%'' = {} \<longrightarrow>
              carries_email em (snd (create_checkout_session import_env env stripe_create em)))"
proof -
  from assms have "STRIPE_API_KEY import_env = []"
    by (auto simp: STRIPE_API_KEY_def getenv_def)
  then have r: "create_checkout_session import_env env stripe_create em
           = ([], Inr (''/onboarding?email='' @ em))"
    by (simp add: create_checkout_session_def)
  have c: "set em \<inter> set ''#&+%'' = {} \<Longrightarrow>
             carries_email em (Inr (''/onboarding?email='' @ em))"
    by (simp only: carries_email_def sum.case query_param_email)
  show ?thesis unfolding r snd_conv using c by blast
qed

theorem checkout_without_key_witness:
  "create_checkout_session Map.empty [''FRONTEND_URL'' \<mapsto> ''https://matchlife.example'']
       failing_provider ''a@example.org''
     = ([], Inr ''/onboarding?email=a@example.org'')
   \<and> carries_email ''a@example.org''
        (snd (create_checkout_session Map.empty
                [''FRONTEND_URL'' \<mapsto> ''https://matchlife.example''] failing_provider
                ''a@example.org''))"
  using checkout_without_key [where import_env = Map.empty and em = "''a@example.org''"
      and env = "[''FRONTEND_URL'' \<mapsto> ''https://matchlife.example'']"
      and stripe_create = failing_provider]
  by auto

subsection \<open>The store and the like engine: auxiliary facts\<close>

lemma oid_Some: "ObjectId s = Some x \<Longrightarrow> oid ObjectId s = Inr x"
  by (simp add: oid_def)

lemma oid_None: "ObjectId s = None \<Longrightarrow> oid ObjectId s = Inl (HTTPException 400 ''Invalid ID'')"
  by (simp add: oid_def)

lemma user_update_one:
  "user (update_one x f d) y = (if y = x then map_option f (user d x) else user d y)"
  by (simp add: update_one_def split: option.splits)

lemma message_update_one: "message (update_one x f d) = message d"
  by (simp add: update_one_def split: option.splits)

lemma update_one_Some:
  "user d x = Some u \<Longrightarrow> update_one x f d = d\<lparr> user := (user d)(x \<mapsto> f u) \<rparr>"
  by (simp add: update_one_def)

lemma update_one_id: "(\<And>u. user d x = Some u \<Longrightarrow> f u = u) \<Longrightarrow> update_one x f d = d"
  by (auto simp add: update_one_def fun_upd_idem split: option.splits)

lemma set_addToSet: "set (addToSet v xs) = insert v (set xs)"
  by (auto simp: addToSet_def)

lemma addToSet_present: "v \<in> set xs \<Longrightarrow> addToSet v xs = xs"
  by (simp add: addToSet_def)

lemma like_user_ok:
  assumes "ObjectId (from_user_id p) = Some x" "ObjectId (to_user_id p) = Some y"
    and "from_user_id p \<noteq> to_user_id p"
    and "user d x = Some uf" "user d y = Some ut"
  shows "like_user ObjectId d p =
     (let d1 = update_one x (\<lambda>u. u\<lparr> liked_user_ids := addToSet (to_user_id p) (liked_user_ids u) \<rparr>) d
      in if from_user_id p \<in> set (liked_user_ids ut)
         then (update_one y (\<lambda>u. u\<lparr> matches := addToSet (from_user_id p) (matches u) \<rparr>)
                 (update_one x (\<lambda>u. u\<lparr> matches := addToSet (to_user_id p) (matches u) \<rparr>) d1), Inr True)
         else (d1, Inr False))"
  using assms by (simp add: like_user_def oid_Some Let_def)

lemma like_user_self:
  "from_user_id p = to_user_id p \<Longrightarrow>
     like_user ObjectId d p = (d, Inl (HTTPException 400 ''Cannot like yourself''))"
  by (simp add: like_user_def)

lemma like_user_invalid:
  assumes "from_user_id p \<noteq> to_user_id p"
    and "ObjectId (from_user_id p) = None \<or> ObjectId (to_user_id p) = None"
  shows "like_user ObjectId d p = (d, Inl (HTTPException 400 ''Invalid ID''))"
proof (cases "ObjectId (from_user_id p)")
  case None
  then show ?thesis using assms(1) by (simp add: like_user_def oid_None)
next
  case (Some x)
  with assms(2) have "ObjectId (to_user_id p) = None" by simp
  then show ?thesis using assms(1) Some by (simp add: like_user_def oid_None oid_Some)
qed

lemma like_user_not_found:
  assumes "from_user_id p \<noteq> to_user_id p"
    and "ObjectId (from_user_id p) = Some x" "ObjectId (to_user_id p) = Some y"
    and "user d x = None \<or> user d y = None"
  shows "like_user ObjectId d p = (d, Inl (HTTPException 404 ''User not found''))"
  using assms by (cases "user d x"; cases "user d y") (simp_all add: like_user_def oid_Some)

lemma like_user_from_after:
  assumes "ObjectId (from_user_id p) = Some x" "ObjectId (to_user_id p) = Some y"
    and "from_user_id p \<noteq> to_user_id p"
    and "user d x = Some uf" "user d y = Some ut"
  shows "\<exists>uf'. user (fst (like_user ObjectId d p)) x = Some uf'
          \<and> liked_user_ids uf' = addToSet (to_user_id p) (liked_user_ids uf)
          \<and> (from_user_id p \<in> set (liked_user_ids ut) \<longrightarrow> to_user_id p \<in> set (matches uf'))"
proof (cases "y = x")
  case True
  with assms(4,5) have "ut = uf" by simp
  with True show ?thesis
    unfolding like_user_ok [OF assms] Let_def using assms(3-5)
    by (simp add: user_update_one set_addToSet)
next
  case False
  then show ?thesis
    unfolding like_user_ok [OF assms] Let_def using assms(3-5)
    by (simp add: user_update_one set_addToSet)
qed

lemma like_user_to_after:
  assumes "ObjectId (from_user_id p) = Some x" "ObjectId (to_user_id p) = Some y"
    and "from_user_id p \<noteq> to_user_id p"
    and "user d x = Some uf" "user d y = Some ut"
  shows "\<exists>ut'. user (fst (like_user ObjectId d p)) y = Some ut'
          \<and> (from_user_id p \<in> set (liked_user_ids ut') \<longleftrightarrow> from_user_id p \<in> set (liked_user_ids ut))
          \<and> (from_user_id p \<in> set (liked_user_ids ut) \<longrightarrow> from_user_id p \<in> set (matches ut'))"
proof (cases "y = x")
  case True
  with assms(4,5) have "ut = uf" by simp
  with True show ?thesis
    unfolding like_user_ok [OF assms] Let_def using assms(3-5)
    by (simp add: user_update_one set_addToSet)
next
  case False
  then show ?thesis
    unfolding like_user_ok [OF assms] Let_def using assms(3-5)
    by (simp add: user_update_one set_addToSet)
qed

lemma like_user_idem_ok:
  assumes "ObjectId (from_user_id p) = Some x" "ObjectId (to_user_id p) = Some y"
    and "from_user_id p \<noteq> to_user_id p"
    and "user d x = Some uf" "user d y = Some ut"
  shows "like_user ObjectId (fst (like_user ObjectId d p)) p = like_user ObjectId d p"
proof -
  define d' where "d' = fst (like_user ObjectId d p)"
  define m where "m = (from_user_id p \<in> set (liked_user_ids ut))"
  have r: "like_user ObjectId d p = (d', Inr m)"
    unfolding d'_def m_def like_user_ok [OF assms] Let_def by simp
  from like_user_from_after [OF assms] obtain uf' where ux': "user d' x = Some uf'"
    and lk: "liked_user_ids uf' = addToSet (to_user_id p) (liked_user_ids uf)"
    and mf: "m \<Longrightarrow> to_user_id p \<in> set (matches uf')"
    unfolding d'_def m_def by blast
  from like_user_to_after [OF assms] obtain ut' where uy': "user d' y = Some ut'"
    and mut: "(from_user_id p \<in> set (liked_user_ids ut')) = m"
    and mt: "m \<Longrightarrow> from_user_id p \<in> set (matches ut')"
    unfolding d'_def m_def by blast
  from lk have lk': "to_user_id p \<in> set (liked_user_ids uf')"
    by (simp add: set_addToSet)
  have s1: "update_one x (\<lambda>u. u\<lparr> liked_user_ids := addToSet (to_user_id p) (liked_user_ids u) \<rparr>) d' = d'"
    using ux' lk' by (intro update_one_id) (simp add: addToSet_present)
  have s2: "m \<Longrightarrow> update_one x (\<lambda>u. u\<lparr> matches := addToSet (to_user_id p) (matches u) \<rparr>) d' = d'"
    using ux' mf by (intro update_one_id) (simp add: addToSet_present)
  have s3: "m \<Longrightarrow> update_one y (\<lambda>u. u\<lparr> matches := addToSet (from_user_id p) (matches u) \<rparr>) d' = d'"
    using uy' mt by (intro update_one_id) (simp add: addToSet_present)
  have "like_user ObjectId d' p = (d', Inr m)"
  proof (cases m)
    case True
    show ?thesis
      by (simp only: like_user_ok [OF assms(1-3) ux' uy'] Let_def s1 mut True if_True s2 [OF True] s3 [OF True])
  next
    case False
    show ?thesis
      by (simp only: like_user_ok [OF assms(1-3) ux' uy'] Let_def s1 mut False if_False)
  qed
  then show ?thesis unfolding r fst_conv .
qed

lemma like_user_idem:
  "like_user ObjectId (fst (like_user ObjectId d p)) p = like_user ObjectId d p"
proof (cases "from_user_id p = to_user_id p")
  case True
  then have "like_user ObjectId d p = (d, Inl (HTTPException 400 ''Cannot like yourself''))"
    by (rule like_user_self)
  then show ?thesis by simp
next
  case ne: False
  show ?thesis
  proof (cases "ObjectId (from_user_id p) = None \<or> ObjectId (to_user_id p) = None")
    case True
    with ne have "like_user ObjectId d p = (d, Inl (HTTPException 400 ''Invalid ID''))"
      by (rule like_user_invalid)
    then show ?thesis by simp
  next
    case False
    then obtain x y where xy: "ObjectId (from_user_id p) = Some x" "ObjectId (to_user_id p) = Some y"
      by auto
    show ?thesis
    proof (cases "user d x = None \<or> user d y = None")
      case True
      with ne xy have "like_user ObjectId d p = (d, Inl (HTTPException 404 ''User not found''))"
        by (rule like_user_not_found)
      then show ?thesis by simp
    next
      case False
      then obtain uf ut where "user d x = Some uf" "user d y = Some ut" by auto
      with xy ne show ?thesis by (intro like_user_idem_ok)
    qed
  qed
qed

subsection \<open>Likes and matches\<close>

text \<open>
  Claim C1. Let A and B be the identifiers of two distinct stored profiles, B not having
  liked A. Then \<open>recordLike(A, B)\<close> returns \<open>mutual = false\<close>, records B among the profiles A
  likes and leaves the \<open>matches\<close> of both as they were; \<open>recordLike(B, A)\<close> after it returns
  \<open>mutual = true\<close>, and then B is in the \<open>matches\<close> of A and A in the \<open>matches\<close> of B. For
  every like between two stored profiles, the value returned is whether the sender's
  identifier is in the \<open>liked_user_ids\<close> the receiver had before the call.
\<close>

theorem like_then_like_back:
  assumes "ObjectId A = Some a" "ObjectId B = Some b" "a \<noteq> b"
    and "user d a = Some ua" "user d b = Some ub"
    and "A \<notin> set (liked_user_ids ub)"
  shows "snd (recordLike ObjectId d A B) = Inr False
       \<and> liked_of (fst (recordLike ObjectId d A B)) a = addToSet B (liked_user_ids ua)
       \<and> matches_of (fst (recordLike ObjectId d A B)) a = matches_of d a
       \<and> matches_of (fst (recordLike ObjectId d A B)) b = matches_of d b
       \<and> snd (recordLike ObjectId (fst (recordLike ObjectId d A B)) B A) = Inr True
       \<and> B \<in> set (matches_of (fst (recordLike ObjectId (fst (recordLike ObjectId d A B)) B A)) a)
       \<and> A \<in> set (matches_of (fst (recordLike ObjectId (fst (recordLike ObjectId d A B)) B A)) b)
       \<and> (ObjectId (from_user_id p) = Some x \<and> ObjectId (to_user_id p) = Some y
            \<and> from_user_id p \<noteq> to_user_id p \<and> user e x = Some uf \<and> user e y = Some ut
            \<longrightarrow> snd (like_user ObjectId e p) = Inr (from_user_id p \<in> set (liked_user_ids ut)))"
proof -
  from assms(1-3) have ne: "A \<noteq> B" by auto
  define d1 where "d1 = update_one a (\<lambda>u. u\<lparr> liked_user_ids := addToSet B (liked_user_ids u) \<rparr>) d"
  have r1: "recordLike ObjectId d A B = (d1, Inr False)"
    unfolding recordLike_def d1_def
    using like_user_ok [of ObjectId "\<lparr> from_user_id = A, to_user_id = B \<rparr>" a b d ua ub] assms ne
    by (simp add: Let_def)
  have ua1: "user d1 a = Some (ua\<lparr> liked_user_ids := addToSet B (liked_user_ids ua) \<rparr>)"
    unfolding d1_def using assms(4) by (simp add: user_update_one)
  have ub1: "user d1 b = Some ub"
    unfolding d1_def using assms(3,5) by (simp add: user_update_one)
  define d2 where "d2 =
     update_one a (\<lambda>u. u\<lparr> matches := addToSet B (matches u) \<rparr>)
       (update_one b (\<lambda>u. u\<lparr> matches := addToSet A (matches u) \<rparr>)
          (update_one b (\<lambda>u. u\<lparr> liked_user_ids := addToSet A (liked_user_ids u) \<rparr>) d1))"
  have r2: "recordLike ObjectId d1 B A = (d2, Inr True)"
    unfolding recordLike_def d2_def
    using like_user_ok [of ObjectId "\<lparr> from_user_id = B, to_user_id = A \<rparr>" b a d1 ub
        "ua\<lparr> liked_user_ids := addToSet B (liked_user_ids ua) \<rparr>"] assms(1,2) ne ua1 ub1
    by (simp add: Let_def set_addToSet)
  have ua2: "map_option matches (user d2 a) = Some (addToSet B (matches ua))"
    unfolding d2_def using assms(3) ua1 by (simp add: user_update_one)
  have ub2: "map_option matches (user d2 b) = Some (addToSet A (matches ub))"
    unfolding d2_def using assms(3) ub1 by (simp add: user_update_one)
  have m2a: "B \<in> set (matches_of d2 a)"
    using ua2 by (auto simp: matches_of_def set_addToSet split: option.splits)
  have m2b: "A \<in> set (matches_of d2 b)"
    using ub2 by (auto simp: matches_of_def set_addToSet split: option.splits)
  have rule: "ObjectId (from_user_id p) = Some x \<and> ObjectId (to_user_id p) = Some y
            \<and> from_user_id p \<noteq> to_user_id p \<and> user e x = Some uf \<and> user e y = Some ut
            \<longrightarrow> snd (like_user ObjectId e p) = Inr (from_user_id p \<in> set (liked_user_ids ut))"
  proof
    assume h: "ObjectId (from_user_id p) = Some x \<and> ObjectId (to_user_id p) = Some y
            \<and> from_user_id p \<noteq> to_user_id p \<and> user e x = Some uf \<and> user e y = Some ut"
    then have "like_user ObjectId e p =
     (let d1 = update_one x (\<lambda>u. u\<lparr> liked_user_ids := addToSet (to_user_id p) (liked_user_ids u) \<rparr>) e
      in if from_user_id p \<in> set (liked_user_ids ut)
         then (update_one y (\<lambda>u. u\<lparr> matches := addToSet (from_user_id p) (matches u) \<rparr>)
                 (update_one x (\<lambda>u. u\<lparr> matches := addToSet (to_user_id p) (matches u) \<rparr>) d1), Inr True)
         else (d1, Inr False))"
      by (intro like_user_ok) simp_all
    then show "snd (like_user ObjectId e p) = Inr (from_user_id p \<in> set (liked_user_ids ut))"
      by (simp add: Let_def)
  qed
  have f1: "fst (recordLike ObjectId d A B) = d1" using r1 by simp
  have f2: "fst (recordLike ObjectId d1 B A) = d2" using r2 by simp
  have l1: "liked_of d1 a = addToSet B (liked_user_ids ua)"
    using ua1 by (simp add: liked_of_def)
  have k1: "matches_of d1 a = matches_of d a"
    using ua1 assms(4) by (simp add: matches_of_def)
  have k2: "matches_of d1 b = matches_of d b"
    using ub1 assms(5) by (simp add: matches_of_def)
  show ?thesis
    unfolding f1 f2 using r1 r2 l1 k1 k2 m2a m2b rule by simp
qed

theorem like_then_like_back_witness:
  "recordLike ObjectId24 sample_db id_A id_B
     = (sample_db\<lparr> user := (user sample_db)(id_A \<mapsto> sample_user\<lparr> liked_user_ids := [id_B] \<rparr>) \<rparr>,
        Inr False)
   \<and> snd (recordLike ObjectId24 (fst (recordLike ObjectId24 sample_db id_A id_B)) id_B id_A)
       = Inr True
   \<and> id_B \<in> set (matches_of (fst (recordLike ObjectId24
                      (fst (recordLike ObjectId24 sample_db id_A id_B)) id_B id_A)) id_A)
   \<and> id_A \<in> set (matches_of (fst (recordLike ObjectId24
                      (fst (recordLike ObjectId24 sample_db id_A id_B)) id_B id_A)) id_B)
   \<and> snd (like_user ObjectId24 matched_db \<lparr> from_user_id = id_A, to_user_id = id_B \<rparr>) = Inr True"
proof -
  have o: "ObjectId24 id_A = Some id_A" "ObjectId24 id_B = Some id_B" "id_A \<noteq> id_B"
    by (simp_all add: ObjectId24_def id_A_def id_B_def hexval_def lower_hex_def)
  have u: "user sample_db id_A = Some sample_user"
    "user sample_db id_B = Some (sample_user\<lparr> email := ''b@example.org'', name := ''B'' \<rparr>)"
    using o(3) by (simp_all add: sample_db_def)
  have n: "id_A \<notin> set (liked_user_ids (sample_user\<lparr> email := ''b@example.org'', name := ''B'' \<rparr>))"
    by (simp add: sample_user_def)
  have r: "recordLike ObjectId24 sample_db id_A id_B
     = (sample_db\<lparr> user := (user sample_db)(id_A \<mapsto> sample_user\<lparr> liked_user_ids := [id_B] \<rparr>) \<rparr>,
        Inr False)"
    using o u by (simp add: recordLike_def like_user_def oid_def Let_def update_one_def
        addToSet_def sample_user_def)
  have u': "user matched_db id_A = Some (sample_user\<lparr> liked_user_ids := [id_B], matches := [id_B] \<rparr>)"
    "user matched_db id_B = Some (sample_user\<lparr> email := ''b@example.org'', name := ''B'',
                                      liked_user_ids := [id_A], matches := [id_A] \<rparr>)"
    using o(3) by (simp_all add: matched_db_def)
  from like_then_like_back [where e = matched_db
      and p = "\<lparr> from_user_id = id_A, to_user_id = id_B \<rparr>" and x = id_A and y = id_B
      and uf = "sample_user\<lparr> liked_user_ids := [id_B], matches := [id_B] \<rparr>"
      and ut = "sample_user\<lparr> email := ''b@example.org'', name := ''B'',
                                      liked_user_ids := [id_A], matches := [id_A] \<rparr>",
      OF o u n] r o u'
  show ?thesis by simp
qed

text \<open>
  Claim C5. \<open>recordLike\<close> fails with 400 "Cannot like yourself" whenever the two identifiers
  are equal, before anything else is looked at. For two different well-formed identifiers
  it fails with 404 "User not found" whenever one of them is the identifier of no stored
  profile, and otherwise it adds the receiver to the sender's \<open>liked_user_ids\<close> unless it
  is there already. A failure leaves the database as it was, and the call made a second
  time on the database the first call left returns the same and leaves that database as
  it is. (An identifier that is not well formed is refused with 400 "Invalid ID", the
  \<open>InvalidOperation\<close> of section 7 of the spec.)
\<close>

theorem like_user_failures_and_idempotence:
  "(from_user_id p = to_user_id p \<longrightarrow>
      like_user ObjectId d p = (d, Inl (HTTPException 400 ''Cannot like yourself'')))
   \<and> (from_user_id p \<noteq> to_user_id p
        \<and> ObjectId (from_user_id p) = Some x \<and> ObjectId (to_user_id p) = Some y
        \<and> (user d x = None \<or> user d y = None) \<longrightarrow>
      like_user ObjectId d p = (d, Inl (HTTPException 404 ''User not found'')))
   \<and> (from_user_id p \<noteq> to_user_id p
        \<and> (ObjectId (from_user_id p) = None \<or> ObjectId (to_user_id p) = None) \<longrightarrow>
      like_user ObjectId d p = (d, Inl (HTTPException 400 ''Invalid ID'')))
   \<and> (from_user_id p \<noteq> to_user_id p
        \<and> ObjectId (from_user_id p) = Some x \<and> ObjectId (to_user_id p) = Some y
        \<and> user d x = Some uf \<and> user d y = Some ut \<longrightarrow>
      snd (like_user ObjectId d p) = Inr (from_user_id p \<in> set (liked_user_ids ut))
      \<and> liked_of (fst (like_user ObjectId d p)) x
            = addToSet (to_user_id p) (liked_user_ids uf))
   \<and> like_user ObjectId (fst (like_user ObjectId d p)) p = like_user ObjectId d p"
proof (intro conjI impI)
  assume "from_user_id p = to_user_id p"
  then show "like_user ObjectId d p = (d, Inl (HTTPException 400 ''Cannot like yourself''))"
    by (rule like_user_self)
next
  assume "from_user_id p \<noteq> to_user_id p
        \<and> ObjectId (from_user_id p) = Some x \<and> ObjectId (to_user_id p) = Some y
        \<and> (user d x = None \<or> user d y = None)"
  then show "like_user ObjectId d p = (d, Inl (HTTPException 404 ''User not found''))"
    by (intro like_user_not_found [of p ObjectId x y d]) simp_all
next
  assume "from_user_id p \<noteq> to_user_id p
        \<and> (ObjectId (from_user_id p) = None \<or> ObjectId (to_user_id p) = None)"
  then show "like_user ObjectId d p = (d, Inl (HTTPException 400 ''Invalid ID''))"
    by (intro like_user_invalid) simp_all
next
  assume h: "from_user_id p \<noteq> to_user_id p
        \<and> ObjectId (from_user_id p) = Some x \<and> ObjectId (to_user_id p) = Some y
        \<and> user d x = Some uf \<and> user d y = Some ut"
  then have ok: "like_user ObjectId d p =
     (let d1 = update_one x (\<lambda>u. u\<lparr> liked_user_ids := addToSet (to_user_id p) (liked_user_ids u) \<rparr>) d
      in if from_user_id p \<in> set (liked_user_ids ut)
         then (update_one y (\<lambda>u. u\<lparr> matches := addToSet (from_user_id p) (matches u) \<rparr>)
                 (update_one x (\<lambda>u. u\<lparr> matches := addToSet (to_user_id p) (matches u) \<rparr>) d1), Inr True)
         else (d1, Inr False))"
    by (intro like_user_ok) simp_all
  then show "snd (like_user ObjectId d p) = Inr (from_user_id p \<in> set (liked_user_ids ut))"
    by (simp add: Let_def)
  from h have "\<exists>uf'. user (fst (like_user ObjectId d p)) x = Some uf'
          \<and> liked_user_ids uf' = addToSet (to_user_id p) (liked_user_ids uf)
          \<and> (from_user_id p \<in> set (liked_user_ids ut) \<longrightarrow> to_user_id p \<in> set (matches uf'))"
    by (intro like_user_from_after [of ObjectId p x y d uf ut]) simp_all
  then show "liked_of (fst (like_user ObjectId d p)) x
            = addToSet (to_user_id p) (liked_user_ids uf)"
    by (auto simp: liked_of_def)
next
  show "like_user ObjectId (fst (like_user ObjectId d p)) p = like_user ObjectId d p"
    by (rule like_user_idem)
qed

theorem like_user_failures_and_idempotence_witness:
  "like_user ObjectId24 sample_db \<lparr> from_user_id = id_A, to_user_id = id_A \<rparr>
     = (sample_db, Inl (HTTPException 400 ''Cannot like yourself''))
   \<and> like_user ObjectId24 sample_db \<lparr> from_user_id = id_A, to_user_id = id_C \<rparr>
     = (sample_db, Inl (HTTPException 404 ''User not found''))
   \<and> like_user ObjectId24 sample_db \<lparr> from_user_id = id_C, to_user_id = id_A \<rparr>
     = (sample_db, Inl (HTTPException 404 ''User not found''))
   \<and> like_user ObjectId24 sample_db \<lparr> from_user_id = id_A, to_user_id = ''B'' \<rparr>
     = (sample_db, Inl (HTTPException 400 ''Invalid ID''))
   \<and> liked_of (fst (like_user ObjectId24 sample_db \<lparr> from_user_id = id_A, to_user_id = id_B \<rparr>))
        id_A = [id_B]
   \<and> liked_of (fst (like_user ObjectId24
                      (fst (like_user ObjectId24 sample_db
                              \<lparr> from_user_id = id_A, to_user_id = id_B \<rparr>))
                      \<lparr> from_user_id = id_A, to_user_id = id_B \<rparr>)) id_A = [id_B]"
proof -
  have o: "ObjectId24 id_A = Some id_A" "ObjectId24 id_B = Some id_B" "ObjectId24 id_C = Some id_C"
    "ObjectId24 ''B'' = None"
    by (simp_all add: ObjectId24_def id_A_def id_B_def id_C_def hexval_def lower_hex_def)
  have ne: "id_A \<noteq> id_B" "id_A \<noteq> id_C" "id_B \<noteq> id_C" "id_A \<noteq> ''B''"
    by (simp_all add: id_A_def id_B_def id_C_def)
  have u: "user sample_db id_A = Some sample_user"
    "user sample_db id_B = Some (sample_user\<lparr> email := ''b@example.org'', name := ''B'' \<rparr>)"
    "user sample_db id_C = None"
    using ne by (simp_all add: sample_db_def)
  have l: "liked_user_ids sample_user = []" by (simp add: sample_user_def)
  from
    like_user_failures_and_idempotence [of "\<lparr> from_user_id = id_A, to_user_id = id_A \<rparr>"
      ObjectId24 sample_db]
    like_user_failures_and_idempotence [of "\<lparr> from_user_id = id_A, to_user_id = id_C \<rparr>"
      ObjectId24 sample_db id_A id_C]
    like_user_failures_and_idempotence [of "\<lparr> from_user_id = id_C, to_user_id = id_A \<rparr>"
      ObjectId24 sample_db id_C id_A]
    like_user_failures_and_idempotence [of "\<lparr> from_user_id = id_A, to_user_id = ''B'' \<rparr>"
      ObjectId24 sample_db]
    like_user_failures_and_idempotence [of "\<lparr> from_user_id = id_A, to_user_id = id_B \<rparr>"
      ObjectId24 sample_db id_A id_B sample_user
      "sample_user\<lparr> email := ''b@example.org'', name := ''B'' \<rparr>"]
    o ne u l
  show ?thesis by (simp add: addToSet_def)
qed

subsection \<open>Messages\<close>

lemma send_message_ok:
  assumes "ObjectId (sm_from_user_id p) = Some x" "user d x = Some u"
    and "sm_to_user_id p \<in> set (matches u)"
  shows "send_message ObjectId now d p =
     (d\<lparr> message := message d @
           [\<lparr> match_id = conversationKey (sm_from_user_id p) (sm_to_user_id p),
              sender_id = sm_from_user_id p, msg_text = sm_text p, created_at = now \<rparr>] \<rparr>,
      Inr True)"
  using assms by (simp add: send_message_def oid_Some insert_one_def)

lemma send_message_forbidden:
  assumes "ObjectId (sm_from_user_id p) = Some x" "user d x = Some u"
    and "sm_to_user_id p \<notin> set (matches u)"
  shows "send_message ObjectId now d p =
     (d, Inl (HTTPException 403 ''You can only message matched users''))"
  using assms by (simp add: send_message_def oid_Some)

lemma send_message_no_sender:
  assumes "ObjectId (sm_from_user_id p) = Some x" "user d x = None"
  shows "send_message ObjectId now d p = (d, Inl (HTTPException 404 ''Sender not found''))"
  using assms by (simp add: send_message_def oid_Some)

text \<open>
  Claim C7. For a sender with a well-formed identifier, \<open>sendMessage\<close> fails with 404
  "Sender not found" when no profile is stored under it; it fails with 403 "You can only
  message matched users" when the receiver is not in the sender's \<open>matches\<close>, whether or
  not a profile of the receiver is stored; and otherwise the new database is the old one
  with one message appended to the message log, which holds the conversation key of the
  two identifiers, the sender's identifier, the text and the time of the call. A failure
  leaves the database as it was. (A sender identifier that is not well formed is refused
  with 400 "Invalid ID".)
\<close>

theorem send_message_outcomes:
  "(ObjectId (sm_from_user_id p) = Some x \<and> user d x = None \<longrightarrow>
      send_message ObjectId now d p = (d, Inl (HTTPException 404 ''Sender not found'')))
   \<and> (ObjectId (sm_from_user_id p) = Some x \<and> user d x = Some u
        \<and> sm_to_user_id p \<notin> set (matches u) \<longrightarrow>
      send_message ObjectId now d p
        = (d, Inl (HTTPException 403 ''You can only message matched users'')))
   \<and> (ObjectId (sm_from_user_id p) = Some x \<and> user d x = Some u
        \<and> sm_to_user_id p \<in> set (matches u) \<longrightarrow>
      send_message ObjectId now d p
        = (d\<lparr> message := message d @
               [\<lparr> match_id = conversationKey (sm_from_user_id p) (sm_to_user_id p),
                  sender_id = sm_from_user_id p, msg_text = sm_text p, created_at = now \<rparr>] \<rparr>,
           Inr True))
   \<and> (ObjectId (sm_from_user_id p) = None \<longrightarrow>
      send_message ObjectId now d p = (d, Inl (HTTPException 400 ''Invalid ID'')))"
proof (intro conjI impI)
  assume "ObjectId (sm_from_user_id p) = Some x \<and> user d x = None"
  then show "send_message ObjectId now d p = (d, Inl (HTTPException 404 ''Sender not found''))"
    by (intro send_message_no_sender [of ObjectId p x]) simp_all
next
  assume "ObjectId (sm_from_user_id p) = Some x \<and> user d x = Some u
        \<and> sm_to_user_id p \<notin> set (matches u)"
  then show "send_message ObjectId now d p
        = (d, Inl (HTTPException 403 ''You can only message matched users''))"
    by (intro send_message_forbidden [of ObjectId p x d u]) simp_all
next
  assume "ObjectId (sm_from_user_id p) = Some x \<and> user d x = Some u
        \<and> sm_to_user_id p \<in> set (matches u)"
  then show "send_message ObjectId now d p
        = (d\<lparr> message := message d @
               [\<lparr> match_id = conversationKey (sm_from_user_id p) (sm_to_user_id p),
                  sender_id = sm_from_user_id p, msg_text = sm_text p, created_at = now \<rparr>] \<rparr>,
           Inr True)"
    by (intro send_message_ok [of ObjectId p x d u]) simp_all
next
  assume "ObjectId (sm_from_user_id p) = None"
  then show "send_message ObjectId now d p = (d, Inl (HTTPException 400 ''Invalid ID''))"
    by (simp add: send_message_def oid_None)
qed

theorem send_message_outcomes_witness:
  "send_message ObjectId24 1700000000000000 sample_db
      \<lparr> sm_from_user_id = id_C, sm_to_user_id = id_A, sm_text = ''halo'' \<rparr>
     = (sample_db, Inl (HTTPException 404 ''Sender not found''))
   \<and> send_message ObjectId24 1700000000000000 sample_db
      \<lparr> sm_from_user_id = id_A, sm_to_user_id = id_B, sm_text = ''halo'' \<rparr>
     = (sample_db, Inl (HTTPException 403 ''You can only message matched users''))
   \<and> send_message ObjectId24 1700000000000000 matched_db
      \<lparr> sm_from_user_id = id_B, sm_to_user_id = id_A, sm_text = ''halo'' \<rparr>
     = (matched_db\<lparr> message :=
           [\<lparr> match_id = ''64b000000000000000000001-64b000000000000000000002'',
              sender_id = id_B, msg_text = ''halo'', created_at = 1700000000000000 \<rparr>] \<rparr>,
        Inr True)
   \<and> send_message ObjectId24 1700000000000000 sample_db
      \<lparr> sm_from_user_id = ''A'', sm_to_user_id = id_B, sm_text = ''halo'' \<rparr>
     = (sample_db, Inl (HTTPException 400 ''Invalid ID''))"
proof -
  have o: "ObjectId24 id_A = Some id_A" "ObjectId24 id_B = Some id_B" "ObjectId24 id_C = Some id_C"
    "ObjectId24 ''A'' = None"
    by (simp_all add: ObjectId24_def id_A_def id_B_def id_C_def hexval_def lower_hex_def)
  have ne: "id_A \<noteq> id_B" "id_A \<noteq> id_C" "id_B \<noteq> id_C"
    by (simp_all add: id_A_def id_B_def id_C_def)
  have u: "user sample_db id_A = Some sample_user" "user sample_db id_C = None"
    "user matched_db id_B = Some (sample_user\<lparr> email := ''b@example.org'', name := ''B'',
                                      liked_user_ids := [id_A], matches := [id_A] \<rparr>)"
    using ne by (simp_all add: sample_db_def matched_db_def)
  have m: "matches sample_user = []" "message matched_db = []"
    by (simp_all add: sample_user_def matched_db_def)
  have k: "conversationKey id_B id_A = ''64b000000000000000000001-64b000000000000000000002''"
    by (simp add: conversationKey_def id_A_def id_B_def)
  from
    send_message_outcomes [where ObjectId = ObjectId24 and now = 1700000000000000
      and p = "\<lparr> sm_from_user_id = id_C, sm_to_user_id = id_A, sm_text = ''halo'' \<rparr>"
      and x = id_C and d = sample_db]
    send_message_outcomes [where ObjectId = ObjectId24 and now = 1700000000000000
      and p = "\<lparr> sm_from_user_id = id_A, sm_to_user_id = id_B, sm_text = ''halo'' \<rparr>"
      and x = id_A and d = sample_db and u = sample_user]
    send_message_outcomes [where ObjectId = ObjectId24 and now = 1700000000000000
      and p = "\<lparr> sm_from_user_id = id_B, sm_to_user_id = id_A, sm_text = ''halo'' \<rparr>"
      and x = id_B and d = matched_db
      and u = "sample_user\<lparr> email := ''b@example.org'', name := ''B'',
                                      liked_user_ids := [id_A], matches := [id_A] \<rparr>"]
    send_message_outcomes [where ObjectId = ObjectId24 and now = 1700000000000000
      and p = "\<lparr> sm_from_user_id = ''A'', sm_to_user_id = id_B, sm_text = ''halo'' \<rparr>"
      and d = sample_db]
    o ne u m k
  show ?thesis by simp
qed

subsection \<open>Admin actions\<close>

lemma admin_action_absent:
  assumes "ObjectId (user_id a) = Some x" "user d x = None"
  shows "admin_action ObjectId d a = (d, Inl (HTTPException 404 ''User not found''))"
  using assms by (simp add: admin_action_def oid_Some)

lemma admin_action_approve:
  assumes "ObjectId (user_id a) = Some x" "user d x = Some u" "action a = ''approve''"
  shows "admin_action ObjectId d a
           = (d\<lparr> user := (user d)(x \<mapsto> u\<lparr> approved := True \<rparr>) \<rparr>, Inr True)"
  using assms by (simp add: admin_action_def oid_Some update_one_Some)

lemma admin_action_reject:
  assumes "ObjectId (user_id a) = Some x" "user d x = Some u" "action a = ''reject''"
  shows "admin_action ObjectId d a = (d\<lparr> user := (user d)(x := None) \<rparr>, Inr True)"
  using assms by (simp add: admin_action_def oid_Some delete_one_def)

lemma admin_action_verify:
  assumes "ObjectId (user_id a) = Some x" "user d x = Some u" "action a = ''verify''"
  shows "admin_action ObjectId d a
           = (d\<lparr> user := (user d)(x \<mapsto> u\<lparr> verified := True \<rparr>) \<rparr>, Inr True)"
  using assms by (simp add: admin_action_def oid_Some update_one_Some)

lemma admin_action_unverify:
  assumes "ObjectId (user_id a) = Some x" "user d x = Some u" "action a = ''unverify''"
  shows "admin_action ObjectId d a
           = (d\<lparr> user := (user d)(x \<mapsto> u\<lparr> verified := False \<rparr>) \<rparr>, Inr True)"
  using assms by (simp add: admin_action_def oid_Some update_one_Some)

lemma admin_action_unknown:
  assumes "ObjectId (user_id a) = Some x" "user d x = Some u"
    and "action a \<notin> set AdminAction_actions"
  shows "admin_action ObjectId d a = (d, Inl (HTTPException 400 ''Unknown action''))"
  using assms by (simp add: admin_action_def oid_Some AdminAction_actions_def)

lemma get_profile_deleted:
  assumes "ObjectId s = Some x"
  shows "get_profile ObjectId (d\<lparr> user := (user d)(x := None) \<rparr>) s
           = Inl (HTTPException 404 ''User not found'')"
  using assms by (simp add: get_profile_def oid_Some)

text \<open>
  Claim C8. For a well-formed identifier under which a profile is stored, \<open>approve\<close> sets
  \<open>approved\<close> to true, \<open>verify\<close> and \<open>unverify\<close> set \<open>verified\<close> to true and to false, and
  nothing else changes in that profile or in the rest of the database; \<open>reject\<close> removes
  the profile and nothing else, and looking the identifier up afterwards gives 404 "User
  not found". When no profile is stored under the identifier the processor fails with 404
  "User not found", and for an action outside the four, on a stored profile, it fails with
  400 "Unknown action"; both leave the database as it was. A request whose action is
  outside the four does not reach the processor: the schema refuses the payload, and the
  database is as it was.
\<close>

theorem admin_action_effects:
  assumes "ObjectId (user_id a) = Some x"
  shows "(user d x = None \<longrightarrow>
            admin_action ObjectId d a = (d, Inl (HTTPException 404 ''User not found'')))
       \<and> (user d x = Some u \<and> action a = ''approve'' \<longrightarrow>
            admin_action ObjectId d a
              = (d\<lparr> user := (user d)(x \<mapsto> u\<lparr> approved := True \<rparr>) \<rparr>, Inr True))
       \<and> (user d x = Some u \<and> action a = ''reject'' \<longrightarrow>
            admin_action ObjectId d a = (d\<lparr> user := (user d)(x := None) \<rparr>, Inr True)
            \<and> get_profile ObjectId (fst (admin_action ObjectId d a)) (user_id a)
                = Inl (HTTPException 404 ''User not found''))
       \<and> (user d x = Some u \<and> action a = ''verify'' \<longrightarrow>
            admin_action ObjectId d a
              = (d\<lparr> user := (user d)(x \<mapsto> u\<lparr> verified := True \<rparr>) \<rparr>, Inr True))
       \<and> (user d x = Some u \<and> action a = ''unverify'' \<longrightarrow>
            admin_action ObjectId d a
              = (d\<lparr> user := (user d)(x \<mapsto> u\<lparr> verified := False \<rparr>) \<rparr>, Inr True))
       \<and> (user d x = Some u \<and> action a \<notin> set AdminAction_actions \<longrightarrow>
            admin_action ObjectId d a = (d, Inl (HTTPException 400 ''Unknown action'')))
       \<and> (act \<notin> set AdminAction_actions \<longrightarrow>
            api_admin_action ObjectId d (user_id a) act = (d, Inl ValidationError))
       \<and> (act \<in> set AdminAction_actions \<longrightarrow>
            api_admin_action ObjectId d (user_id a) act
              = admin_action ObjectId d \<lparr> user_id = user_id a, action = act \<rparr>)"
proof (intro conjI impI)
  assume "user d x = None"
  with assms show "admin_action ObjectId d a = (d, Inl (HTTPException 404 ''User not found''))"
    by (rule admin_action_absent)
next
  assume "user d x = Some u \<and> action a = ''approve''"
  with assms show "admin_action ObjectId d a
              = (d\<lparr> user := (user d)(x \<mapsto> u\<lparr> approved := True \<rparr>) \<rparr>, Inr True)"
    by (intro admin_action_approve) simp_all
next
  assume h: "user d x = Some u \<and> action a = ''reject''"
  with assms show r: "admin_action ObjectId d a = (d\<lparr> user := (user d)(x := None) \<rparr>, Inr True)"
    by (intro admin_action_reject [of ObjectId a x d u]) simp_all
  show "get_profile ObjectId (fst (admin_action ObjectId d a)) (user_id a)
                = Inl (HTTPException 404 ''User not found'')"
    unfolding r fst_conv using assms by (rule get_profile_deleted)
next
  assume "user d x = Some u \<and> action a = ''verify''"
  with assms show "admin_action ObjectId d a
              = (d\<lparr> user := (user d)(x \<mapsto> u\<lparr> verified := True \<rparr>) \<rparr>, Inr True)"
    by (intro admin_action_verify) simp_all
next
  assume "user d x = Some u \<and> action a = ''unverify''"
  with assms show "admin_action ObjectId d a
              = (d\<lparr> user := (user d)(x \<mapsto> u\<lparr> verified := False \<rparr>) \<rparr>, Inr True)"
    by (intro admin_action_unverify) simp_all
next
  assume "user d x = Some u \<and> action a \<notin> set AdminAction_actions"
  with assms show "admin_action ObjectId d a = (d, Inl (HTTPException 400 ''Unknown action''))"
    by (intro admin_action_unknown [of ObjectId a x d u]) simp_all
next
  assume "act \<notin> set AdminAction_actions"
  then show "api_admin_action ObjectId d (user_id a) act = (d, Inl ValidationError)"
    by (simp add: api_admin_action_def AdminAction_validate_def)
next
  assume "act \<in> set AdminAction_actions"
  then show "api_admin_action ObjectId d (user_id a) act
              = admin_action ObjectId d \<lparr> user_id = user_id a, action = act \<rparr>"
    by (simp add: api_admin_action_def AdminAction_validate_def)
qed

theorem admin_action_effects_witness:
  "admin_action ObjectId24 sample_db \<lparr> user_id = id_C, action = ''approve'' \<rparr>
     = (sample_db, Inl (HTTPException 404 ''User not found''))
   \<and> admin_action ObjectId24 sample_db \<lparr> user_id = id_A, action = ''approve'' \<rparr>
     = (sample_db\<lparr> user := (user sample_db)(id_A \<mapsto> sample_user\<lparr> approved := True \<rparr>) \<rparr>,
        Inr True)
   \<and> admin_action ObjectId24 sample_db \<lparr> user_id = id_A, action = ''reject'' \<rparr>
     = (sample_db\<lparr> user := (user sample_db)(id_A := None) \<rparr>, Inr True)
   \<and> get_profile ObjectId24
        (fst (admin_action ObjectId24 sample_db \<lparr> user_id = id_A, action = ''reject'' \<rparr>)) id_A
     = Inl (HTTPException 404 ''User not found'')
   \<and> admin_action ObjectId24 sample_db \<lparr> user_id = id_A, action = ''verify'' \<rparr>
     = (sample_db\<lparr> user := (user sample_db)(id_A \<mapsto> sample_user\<lparr> verified := True \<rparr>) \<rparr>,
        Inr True)
   \<and> admin_action ObjectId24 sample_db \<lparr> user_id = id_A, action = ''unverify'' \<rparr>
     = (sample_db\<lparr> user := (user sample_db)(id_A \<mapsto> sample_user\<lparr> verified := False \<rparr>) \<rparr>,
        Inr True)
   \<and> admin_action ObjectId24 sample_db \<lparr> user_id = id_A, action = ''archive'' \<rparr>
     = (sample_db, Inl (HTTPException 400 ''Unknown action''))
   \<and> api_admin_action ObjectId24 sample_db id_A ''archive'' = (sample_db, Inl ValidationError)"
proof -
  have o: "ObjectId24 id_A = Some id_A" "ObjectId24 id_C = Some id_C"
    by (simp_all add: ObjectId24_def id_A_def id_C_def hexval_def lower_hex_def)
  have ne: "id_A \<noteq> id_B" "id_A \<noteq> id_C" "id_B \<noteq> id_C"
    by (simp_all add: id_A_def id_B_def id_C_def)
  have u: "user sample_db id_A = Some sample_user" "user sample_db id_C = None"
    using ne by (simp_all add: sample_db_def)
  have n: "''archive'' \<notin> set AdminAction_actions"
    by (simp add: AdminAction_actions_def)
  have c1: "admin_action ObjectId24 sample_db \<lparr> user_id = id_C, action = ''approve'' \<rparr>
     = (sample_db, Inl (HTTPException 404 ''User not found''))"
    using admin_action_effects [where ObjectId = ObjectId24 and d = sample_db and x = id_C
      and a = "\<lparr> user_id = id_C, action = ''approve'' \<rparr>" and u = sample_user
      and act = "''approve''"] o u
    by simp
  have c2: "admin_action ObjectId24 sample_db \<lparr> user_id = id_A, action = ''approve'' \<rparr>
     = (sample_db\<lparr> user := (user sample_db)(id_A \<mapsto> sample_user\<lparr> approved := True \<rparr>) \<rparr>,
        Inr True)"
    using admin_action_effects [where ObjectId = ObjectId24 and d = sample_db and x = id_A
      and a = "\<lparr> user_id = id_A, action = ''approve'' \<rparr>" and u = sample_user
      and act = "''approve''"] o u
    by simp
  have c3: "admin_action ObjectId24 sample_db \<lparr> user_id = id_A, action = ''reject'' \<rparr>
     = (sample_db\<lparr> user := (user sample_db)(id_A := None) \<rparr>, Inr True)
     \<and> get_profile ObjectId24
        (fst (admin_action ObjectId24 sample_db \<lparr> user_id = id_A, action = ''reject'' \<rparr>)) id_A
     = Inl (HTTPException 404 ''User not found'')"
    using admin_action_effects [where ObjectId = ObjectId24 and d = sample_db and x = id_A
      and a = "\<lparr> user_id = id_A, action = ''reject'' \<rparr>" and u = sample_user
      and act = "''reject''"] o u
    by auto
  have c4: "admin_action ObjectId24 sample_db \<lparr> user_id = id_A, action = ''verify'' \<rparr>
     = (sample_db\<lparr> user := (user sample_db)(id_A \<mapsto> sample_user\<lparr> verified := True \<rparr>) \<rparr>,
        Inr True)"
    using admin_action_effects [where ObjectId = ObjectId24 and d = sample_db and x = id_A
      and a = "\<lparr> user_id = id_A, action = ''verify'' \<rparr>" and u = sample_user
      and act = "''verify''"] o u
    by simp
  have c5: "admin_action ObjectId24 sample_db \<lparr> user_id = id_A, action = ''unverify'' \<rparr>
     = (sample_db\<lparr> user := (user sample_db)(id_A \<mapsto> sample_user\<lparr> verified := False \<rparr>) \<rparr>,
        Inr True)"
    using admin_action_effects [where ObjectId = ObjectId24 and d = sample_db and x = id_A
      and a = "\<lparr> user_id = id_A, action = ''unverify'' \<rparr>" and u = sample_user
      and act = "''unverify''"] o u
    by simp
  have c6: "admin_action ObjectId24 sample_db \<lparr> user_id = id_A, action = ''archive'' \<rparr>
     = (sample_db, Inl (HTTPException 400 ''Unknown action''))
     \<and> api_admin_action ObjectId24 sample_db id_A ''archive'' = (sample_db, Inl ValidationError)"
    using admin_action_effects [where ObjectId = ObjectId24 and d = sample_db and x = id_A
      and a = "\<lparr> user_id = id_A, action = ''archive'' \<rparr>" and u = sample_user
      and act = "''archive''"] o u n
    by simp
  from c1 c2 c3 c4 c5 c6 show ?thesis by blast
qed

subsection \<open>Messages to a deleted match\<close>

text \<open>
  Claim C10. \<open>sendMessage\<close> looks at the sender only. Whenever the sender is stored and
  the receiver's identifier is in the sender's \<open>matches\<close>, the message is appended and the
  call succeeds, whatever the receiver's identifier is and whether or not a profile is
  stored under it. In particular, after an admin \<open>reject\<close> of the receiver no profile is
  stored under the receiver's identifier, and the sender's message is appended all the
  same, under the conversation key of the two.
\<close>

theorem send_message_to_deleted_match:
  assumes "ObjectId (sm_from_user_id p) = Some x" "user d x = Some u"
    and "sm_to_user_id p \<in> set (matches u)"
  shows "send_message ObjectId now d p
           = (d\<lparr> message := message d @
                  [\<lparr> match_id = conversationKey (sm_from_user_id p) (sm_to_user_id p),
                     sender_id = sm_from_user_id p, msg_text = sm_text p,
                     created_at = now \<rparr>] \<rparr>,
              Inr True)
       \<and> (ObjectId (sm_to_user_id p) = Some y \<and> y \<noteq> x \<longrightarrow>
            user (fst (admin_action ObjectId d
                         \<lparr> user_id = sm_to_user_id p, action = ''reject'' \<rparr>)) y = None
            \<and> snd (send_message ObjectId now
                      (fst (admin_action ObjectId d
                              \<lparr> user_id = sm_to_user_id p, action = ''reject'' \<rparr>)) p)
                = Inr True
            \<and> message (fst (send_message ObjectId now
                      (fst (admin_action ObjectId d
                              \<lparr> user_id = sm_to_user_id p, action = ''reject'' \<rparr>)) p))
                = message d @
                  [\<lparr> match_id = conversationKey (sm_from_user_id p) (sm_to_user_id p),
                     sender_id = sm_from_user_id p, msg_text = sm_text p,
                     created_at = now \<rparr>])"
proof (intro conjI impI)
  show "send_message ObjectId now d p
           = (d\<lparr> message := message d @
                  [\<lparr> match_id = conversationKey (sm_from_user_id p) (sm_to_user_id p),
                     sender_id = sm_from_user_id p, msg_text = sm_text p,
                     created_at = now \<rparr>] \<rparr>,
              Inr True)"
    using assms by (rule send_message_ok)
next
  assume h: "ObjectId (sm_to_user_id p) = Some y \<and> y \<noteq> x"
  define d' where "d' = fst (admin_action ObjectId d
                         \<lparr> user_id = sm_to_user_id p, action = ''reject'' \<rparr>)"
  have gone: "user d' y = None \<and> user d' x = Some u \<and> message d' = message d"
  proof (cases "user d y")
    case None
    with h have "admin_action ObjectId d \<lparr> user_id = sm_to_user_id p, action = ''reject'' \<rparr>
        = (d, Inl (HTTPException 404 ''User not found''))"
      by (intro admin_action_absent [of ObjectId _ y]) simp_all
    with None assms(2) show ?thesis by (simp add: d'_def)
  next
    case (Some v)
    with h have "admin_action ObjectId d \<lparr> user_id = sm_to_user_id p, action = ''reject'' \<rparr>
        = (d\<lparr> user := (user d)(y := None) \<rparr>, Inr True)"
      by (intro admin_action_reject [of ObjectId _ y d v]) simp_all
    with h assms(2) show ?thesis by (auto simp: d'_def)
  qed
  then have s: "send_message ObjectId now d' p
           = (d'\<lparr> message := message d' @
                  [\<lparr> match_id = conversationKey (sm_from_user_id p) (sm_to_user_id p),
                     sender_id = sm_from_user_id p, msg_text = sm_text p,
                     created_at = now \<rparr>] \<rparr>,
              Inr True)"
    using assms(1,3) by (intro send_message_ok [of ObjectId p x d' u]) simp_all
  show "user (fst (admin_action ObjectId d
                         \<lparr> user_id = sm_to_user_id p, action = ''reject'' \<rparr>)) y = None"
    using gone by (simp add: d'_def)
  show "snd (send_message ObjectId now
                      (fst (admin_action ObjectId d
                              \<lparr> user_id = sm_to_user_id p, action = ''reject'' \<rparr>)) p)
                = Inr True"
    using s by (simp add: d'_def)
  show "message (fst (send_message ObjectId now
                      (fst (admin_action ObjectId d
                              \<lparr> user_id = sm_to_user_id p, action = ''reject'' \<rparr>)) p))
                = message d @
                  [\<lparr> match_id = conversationKey (sm_from_user_id p) (sm_to_user_id p),
                     sender_id = sm_from_user_id p, msg_text = sm_text p,
                     created_at = now \<rparr>]"
    using s gone unfolding d'_def [symmetric] by simp
qed

theorem send_message_to_deleted_match_witness:
  "admin_action ObjectId24 matched_db \<lparr> user_id = id_B, action = ''reject'' \<rparr>
     = (matched_db\<lparr> user := (user matched_db)(id_B := None) \<rparr>, Inr True)
   \<and> get_profile ObjectId24 (matched_db\<lparr> user := (user matched_db)(id_B := None) \<rparr>) id_B
     = Inl (HTTPException 404 ''User not found'')
   \<and> send_message ObjectId24 1700000000000000
        (matched_db\<lparr> user := (user matched_db)(id_B := None) \<rparr>)
        \<lparr> sm_from_user_id = id_A, sm_to_user_id = id_B, sm_text = ''halo'' \<rparr>
     = (matched_db\<lparr> user := (user matched_db)(id_B := None),
                    message :=
           [\<lparr> match_id = ''64b000000000000000000001-64b000000000000000000002'',
              sender_id = id_A, msg_text = ''halo'', created_at = 1700000000000000 \<rparr>] \<rparr>,
        Inr True)"
proof -
  have o: "ObjectId24 id_A = Some id_A" "ObjectId24 id_B = Some id_B"
    by (simp_all add: ObjectId24_def id_A_def id_B_def hexval_def lower_hex_def)
  have ne: "id_A \<noteq> id_B" "id_B \<noteq> id_A"
    by (simp_all add: id_A_def id_B_def)
  define d' where "d' = matched_db\<lparr> user := (user matched_db)(id_B := None) \<rparr>"
  have u: "user d' id_A = Some (sample_user\<lparr> liked_user_ids := [id_B], matches := [id_B] \<rparr>)"
    "user d' id_B = None" "message d' = []"
    using ne by (simp_all add: d'_def matched_db_def)
  have ub: "user matched_db id_B = Some (sample_user\<lparr> email := ''b@example.org'', name := ''B'',
                                      liked_user_ids := [id_A], matches := [id_A] \<rparr>)"
    by (simp add: matched_db_def)
  have k: "conversationKey id_A id_B = ''64b000000000000000000001-64b000000000000000000002''"
    by (simp add: conversationKey_def id_A_def id_B_def)
  have a: "admin_action ObjectId24 matched_db \<lparr> user_id = id_B, action = ''reject'' \<rparr>
     = (d', Inr True)"
    using o ub by (simp add: admin_action_def oid_def delete_one_def d'_def)
  have g: "get_profile ObjectId24 d' id_B = Inl (HTTPException 404 ''User not found'')"
    using o u by (simp add: get_profile_def oid_def)
  from send_message_to_deleted_match [where ObjectId = ObjectId24 and d = d'
      and now = 1700000000000000
      and p = "\<lparr> sm_from_user_id = id_A, sm_to_user_id = id_B, sm_text = ''halo'' \<rparr>"
      and x = id_A and u = "sample_user\<lparr> liked_user_ids := [id_B], matches := [id_B] \<rparr>"
      and y = id_B] o u k ne
  have "send_message ObjectId24 1700000000000000 d'
        \<lparr> sm_from_user_id = id_A, sm_to_user_id = id_B, sm_text = ''halo'' \<rparr>
     = (d'\<lparr> message :=
           [\<lparr> match_id = ''64b000000000000000000001-64b000000000000000000002'',
              sender_id = id_A, msg_text = ''halo'', created_at = 1700000000000000 \<rparr>] \<rparr>,
        Inr True)"
    by simp
  with a g show ?thesis unfolding d'_def by simp
qed

subsection \<open>The search predicate builder: auxiliary facts\<close>

lemma stage_text:
  "(case t of None \<Rightarrow> g | Some s \<Rightarrow> if s \<noteq> [] then AList.update k (regex_i s) g else g)
     = opt_update k (text_constraint t) g"
  by (cases t) (simp_all add: opt_update_def text_constraint_def)

lemma stage_opt:
  "(case t of None \<Rightarrow> g | Some r \<Rightarrow> AList.update k (h r) g) = opt_update k (map_option h t) g"
  by (cases t) (simp_all add: opt_update_def)

lemma scalar_filters_alt:
  "scalar_filters q g =
     opt_update ''pendidikan'' (text_constraint (q_pendidikan q))
       (opt_update ''pendapatan_per_bulan''
          (map_option (\<lambda>n. VDict [(''$gte'', VInt n)]) (pendapatan_min q))
          (opt_update ''pekerjaan'' (text_constraint (q_pekerjaan q))
             (opt_update ''level_agama'' (map_option (\<lambda>r. VStr (Religiosity_str r)) (q_level_agama q))
                (opt_update ''agama'' (map_option (\<lambda>r. VStr (Religion_str r)) (q_agama q))
                   (opt_update ''kota'' (text_constraint (lokasi q)) g)))))"
  unfolding scalar_filters_def Let_def stage_text stage_opt ..

lemma map_of_opt_update:
  "map_of (opt_update k vo al) k' = (if k' = k \<and> vo \<noteq> None then vo else map_of al k')"
  by (cases vo) (simp_all add: opt_update_def update_conv')

lemma distinct_opt_update:
  "distinct (map fst al) \<Longrightarrow> distinct (map fst (opt_update k vo al))"
  by (cases vo) (simp_all add: opt_update_def distinct_update)

lemma keys_opt_update:
  "k \<in> A \<Longrightarrow> fst ` set al \<subseteq> A \<Longrightarrow> fst ` set (opt_update k vo al) \<subseteq> A"
  by (cases vo) (auto simp: opt_update_def dom_update)

lemma distinct_scalar_filters:
  "distinct (map fst g) \<Longrightarrow> distinct (map fst (scalar_filters q g))"
  unfolding scalar_filters_alt by (intro distinct_opt_update)

lemma keys_scalar_filters:
  assumes "fst ` set g \<subseteq> set builder_keys"
  shows "fst ` set (scalar_filters q g) \<subseteq> set builder_keys"
  unfolding scalar_filters_alt
  by (intro keys_opt_update assms) (simp_all add: builder_keys_def)

lemma lifestyle_filters_Some:
  "q_lifestyle q = Some l \<Longrightarrow>
   lifestyle_filters q g =
     AList.update ''lifestyle.kebiasaan_belanja'' (VStr (ShoppingHabit_str (kebiasaan_belanja l)))
      (AList.update ''lifestyle.pengelolaan_waktu'' (VStr (TimeManagement_str (pengelolaan_waktu l)))
        (AList.update ''lifestyle.kebiasaan_tidur'' (VStr (SleepHabit_str (kebiasaan_tidur l)))
          (AList.update ''lifestyle.aktivitas_fisik'' (VStr (PhysicalActivity_str (aktivitas_fisik l)))
            (AList.update ''lifestyle.pola_makan'' (VStr (Diet_str (pola_makan l)))
              (AList.update ''lifestyle.alkohol'' (VStr (LifestyleAlcohol_str (alkohol l)))
                (AList.update ''lifestyle.merokok'' (VStr (LifestyleSmoking_str (merokok l)))
                   g))))))"
  by (simp add: lifestyle_filters_def Lifestyle_model_dump_def)

lemma lifestyle_filters_None: "q_lifestyle q = None \<Longrightarrow> lifestyle_filters q g = g"
  by (simp add: lifestyle_filters_def)

lemma map_of_lifestyle_filters:
  assumes "k \<in> set builder_keys"
  shows "map_of (lifestyle_filters q g) k = map_of g k"
proof (cases "q_lifestyle q")
  case None
  then show ?thesis by (simp add: lifestyle_filters_None)
next
  case (Some l)
  from assms show ?thesis
    unfolding lifestyle_filters_Some [OF Some] update_conv' builder_keys_def by auto
qed

lemma distinct_lifestyle_filters:
  assumes "distinct (map fst g)"
  shows "distinct (map fst (lifestyle_filters q g))"
proof (cases "q_lifestyle q")
  case None
  with assms show ?thesis by (simp add: lifestyle_filters_None)
next
  case (Some l)
  show ?thesis
    unfolding lifestyle_filters_Some [OF Some] by (intro distinct_update assms)
qed

lemma age_conditions_keys:
  assumes "age_conditions today q = Inr c"
  shows "map fst c = (case usia_min q of None \<Rightarrow> [] | Some a \<Rightarrow> [''$lte''])
                     @ (case usia_max q of None \<Rightarrow> [] | Some b \<Rightarrow> [''$gte''])"
  using assms by (auto simp: age_conditions_def split: option.splits sum.splits)

lemma search_filters_Inr:
  assumes "search_filters today q = Inr f"
  shows "\<exists>base. f = lifestyle_filters q (scalar_filters q base)
           \<and> ((usia_min q = None \<and> usia_max q = None \<and> base = [(''approved'', VBool True)])
              \<or> ((usia_min q \<noteq> None \<or> usia_max q \<noteq> None)
                  \<and> (\<exists>c. age_conditions today q = Inr c
                        \<and> base = [(''approved'', VBool True), (''tanggal_lahir'', VDict c)])))"
proof (cases "usia_min q \<noteq> None \<or> usia_max q \<noteq> None")
  case True
  with assms obtain c where c: "age_conditions today q = Inr c"
    by (cases "age_conditions today q") (simp_all add: search_filters_def)
  with True assms
  have "f = lifestyle_filters q (scalar_filters q [(''approved'', VBool True), (''tanggal_lahir'', VDict c)])"
    by (simp add: search_filters_def)
  with True c show ?thesis
    by (intro exI [of _ "[(''approved'', VBool True), (''tanggal_lahir'', VDict c)]"]) simp
next
  case False
  with assms have "f = lifestyle_filters q (scalar_filters q [(''approved'', VBool True)])"
    by (simp add: search_filters_def)
  with False show ?thesis
    by (intro exI [of _ "[(''approved'', VBool True)]"]) simp
qed

lemma search_filters_no_fields:
  "search_filters today no_fields = Inr [(''approved'', VBool True)]"
  by (simp add: search_filters_def no_fields_def scalar_filters_def lifestyle_filters_def)

subsection \<open>Search: the predicate set\<close>

text \<open>
  Claim C2, as the spec states it, fails: a field that is supplied does not always add a
  constraint. The query that supplies the location as the empty text gets the predicate
  set of the query that supplies nothing, \<open>approved = true\<close> alone.
\<close>

theorem search_empty_text_counterexample:
  "lokasi (no_fields\<lparr> lokasi := Some [] \<rparr>) \<noteq> None
   \<and> search_filters day_2024_06_15 (no_fields\<lparr> lokasi := Some [] \<rparr>)
       = Inr [(''approved'', VBool True)]"
  by (simp add: search_filters_def no_fields_def scalar_filters_def lifestyle_filters_def)

text \<open>
  Claim C2, amended. Whenever the builder returns a predicate set, the set has one entry
  per key, and \<open>approved = true\<close> is one of them. A religion, a religiosity level and a
  minimum income that are supplied add one constraint each, under their own key; a
  free-text field (location, occupation, education) adds one constraint when it is
  supplied and not empty, and none when it is empty; the two age bounds share the one
  constraint on the birth date, which holds one condition per bound supplied. A field that
  is omitted adds nothing, and without a lifestyle filter the set has no other key. The
  query that supplies no field gets \<open>approved = true\<close> alone, and from a store that reads
  this predicate as the \<open>approved\<close> flag of a profile it selects exactly the approved
  profiles. (Nothing is said here of the dates on which the builder raises, nor of the
  constraints a lifestyle filter adds.)
\<close>

theorem search_filters_constraints:
  assumes "search_filters today q = Inr f"
  shows "map_of f ''approved'' = Some (VBool True)
       \<and> distinct (map fst f)
       \<and> map_of f ''kota'' = text_constraint (lokasi q)
       \<and> map_of f ''agama'' = map_option (\<lambda>r. VStr (Religion_str r)) (q_agama q)
       \<and> map_of f ''level_agama''
           = map_option (\<lambda>r. VStr (Religiosity_str r)) (q_level_agama q)
       \<and> map_of f ''pekerjaan'' = text_constraint (q_pekerjaan q)
       \<and> map_of f ''pendapatan_per_bulan''
           = map_option (\<lambda>n. VDict [(''$gte'', VInt n)]) (pendapatan_min q)
       \<and> map_of f ''pendidikan'' = text_constraint (q_pendidikan q)
       \<and> (usia_min q = None \<and> usia_max q = None \<longrightarrow> map_of f ''tanggal_lahir'' = None)
       \<and> (usia_min q \<noteq> None \<or> usia_max q \<noteq> None \<longrightarrow>
            (\<exists>c. map_of f ''tanggal_lahir'' = Some (VDict c)
                 \<and> map fst c = (case usia_min q of None \<Rightarrow> [] | Some a \<Rightarrow> [''$lte''])
                               @ (case usia_max q of None \<Rightarrow> [] | Some b \<Rightarrow> [''$gte''])))
       \<and> (q_lifestyle q = None \<longrightarrow> set (map fst f) \<subseteq> set builder_keys)
       \<and> search_filters today no_fields = Inr [(''approved'', VBool True)]
       \<and> ((\<forall>u. holds u (''approved'', VBool True) = approved u) \<longrightarrow>
            search_profiles holds today docs no_fields
              = Inr (filter (\<lambda>(i, u). approved u) docs))"
proof -
  from search_filters_Inr [OF assms] obtain base where
    f: "f = lifestyle_filters q (scalar_filters q base)" and
    b: "(usia_min q = None \<and> usia_max q = None \<and> base = [(''approved'', VBool True)])
         \<or> ((usia_min q \<noteq> None \<or> usia_max q \<noteq> None)
             \<and> (\<exists>c. age_conditions today q = Inr c
                   \<and> base = [(''approved'', VBool True), (''tanggal_lahir'', VDict c)]))"
    by blast
  from b have bd: "distinct (map fst base)" by auto
  from b have bk: "fst ` set base \<subseteq> set builder_keys" by (auto simp: builder_keys_def)
  from b have ba: "map_of base ''approved'' = Some (VBool True)" by auto
  from b have bn: "map_of base ''kota'' = None" "map_of base ''agama'' = None"
    "map_of base ''level_agama'' = None" "map_of base ''pekerjaan'' = None"
    "map_of base ''pendapatan_per_bulan'' = None" "map_of base ''pendidikan'' = None"
    by auto
  have m: "map_of f k = map_of (scalar_filters q base) k" if "k \<in> set builder_keys" for k
    unfolding f using that by (rule map_of_lifestyle_filters)
  have none: "(if v \<noteq> None then v else None) = v" for v :: "fval option" by simp
  have 1: "map_of f ''approved'' = Some (VBool True)"
    using m [of "''approved''"] ba
    by (simp add: builder_keys_def scalar_filters_alt map_of_opt_update)
  have 2: "distinct (map fst f)"
    unfolding f by (intro distinct_lifestyle_filters distinct_scalar_filters bd)
  have 3: "map_of f ''kota'' = text_constraint (lokasi q)"
    using m [of "''kota''"] bn
    by (simp add: builder_keys_def scalar_filters_alt map_of_opt_update)
  have 4: "map_of f ''agama'' = map_option (\<lambda>r. VStr (Religion_str r)) (q_agama q)"
    using m [of "''agama''"] bn
    by (simp add: builder_keys_def scalar_filters_alt map_of_opt_update)
  have 5: "map_of f ''level_agama''
           = map_option (\<lambda>r. VStr (Religiosity_str r)) (q_level_agama q)"
    using m [of "''level_agama''"] bn
    by (simp add: builder_keys_def scalar_filters_alt map_of_opt_update)
  have 6: "map_of f ''pekerjaan'' = text_constraint (q_pekerjaan q)"
    using m [of "''pekerjaan''"] bn
    by (simp add: builder_keys_def scalar_filters_alt map_of_opt_update)
  have 7: "map_of f ''pendapatan_per_bulan''
           = map_option (\<lambda>n. VDict [(''$gte'', VInt n)]) (pendapatan_min q)"
    using m [of "''pendapatan_per_bulan''"] bn
    by (simp add: builder_keys_def scalar_filters_alt map_of_opt_update)
  have 8: "map_of f ''pendidikan'' = text_constraint (q_pendidikan q)"
    using m [of "''pendidikan''"] bn
    by (simp add: builder_keys_def scalar_filters_alt map_of_opt_update)
  have t: "map_of f ''tanggal_lahir'' = map_of base ''tanggal_lahir''"
    using m [of "''tanggal_lahir''"]
    by (simp add: builder_keys_def scalar_filters_alt map_of_opt_update)
  have 9: "usia_min q = None \<and> usia_max q = None \<longrightarrow> map_of f ''tanggal_lahir'' = None"
    unfolding t using b by auto
  have 10: "usia_min q \<noteq> None \<or> usia_max q \<noteq> None \<longrightarrow>
            (\<exists>c. map_of f ''tanggal_lahir'' = Some (VDict c)
                 \<and> map fst c = (case usia_min q of None \<Rightarrow> [] | Some a \<Rightarrow> [''$lte''])
                               @ (case usia_max q of None \<Rightarrow> [] | Some b \<Rightarrow> [''$gte'']))"
  proof
    assume "usia_min q \<noteq> None \<or> usia_max q \<noteq> None"
    with b obtain c where c: "age_conditions today q = Inr c"
      "base = [(''approved'', VBool True), (''tanggal_lahir'', VDict c)]" by auto
    from c(2) have "map_of f ''tanggal_lahir'' = Some (VDict c)" unfolding t by simp
    with age_conditions_keys [OF c(1)] show "\<exists>c. map_of f ''tanggal_lahir'' = Some (VDict c)
                 \<and> map fst c = (case usia_min q of None \<Rightarrow> [] | Some a \<Rightarrow> [''$lte''])
                               @ (case usia_max q of None \<Rightarrow> [] | Some b \<Rightarrow> [''$gte''])"
      by (intro exI [of _ c]) simp
  qed
  have 11: "q_lifestyle q = None \<longrightarrow> set (map fst f) \<subseteq> set builder_keys"
  proof
    assume "q_lifestyle q = None"
    then have "f = scalar_filters q base" unfolding f by (rule lifestyle_filters_None)
    with keys_scalar_filters [OF bk, of q] show "set (map fst f) \<subseteq> set builder_keys"
      by simp
  qed
  have 12: "search_filters today no_fields = Inr [(''approved'', VBool True)]"
    by (rule search_filters_no_fields)
  have 13: "(\<forall>u. holds u (''approved'', VBool True) = approved u) \<longrightarrow>
            search_profiles holds today docs no_fields
              = Inr (filter (\<lambda>(i, u). approved u) docs)"
    by (simp add: search_profiles_def search_filters_no_fields get_documents_def)
  from 1 2 3 4 5 6 7 8 9 10 11 12 13 show ?thesis by blast
qed

theorem search_filters_constraints_witness:
  "search_filters day_2024_06_15
      (no_fields\<lparr> usia_min := Some 25, usia_max := Some 35, lokasi := Some ''Bandung'',
                  q_agama := Some Islam, q_pekerjaan := Some [] \<rparr>)
     = Inr [(''approved'', VBool True),
            (''tanggal_lahir'', VDict [(''$lte'', VStr ''1999-06-15''),
                                       (''$gte'', VStr ''1988-06-15'')]),
            (''kota'', VDict [(''$regex'', VStr ''Bandung''), (''$options'', VStr ''i'')]),
            (''agama'', VStr ''Islam'')]
   \<and> map_of [(''approved'', VBool True),
            (''tanggal_lahir'', VDict [(''$lte'', VStr ''1999-06-15''),
                                       (''$gte'', VStr ''1988-06-15'')]),
            (''kota'', VDict [(''$regex'', VStr ''Bandung''), (''$options'', VStr ''i'')]),
            (''agama'', VStr ''Islam'')] ''pekerjaan'' = None
   \<and> search_profiles holds_approved day_2024_06_15
        [(id_A, sample_user\<lparr> approved := True \<rparr>), (id_B, sample_user)] no_fields
       = Inr [(id_A, sample_user\<lparr> approved := True \<rparr>)]"
proof -
  define q where "q = no_fields\<lparr> usia_min := Some 25, usia_max := Some 35,
      lokasi := Some ''Bandung'', q_agama := Some Islam, q_pekerjaan := Some [] \<rparr>"
  define f where "f = [(''approved'', VBool True),
            (''tanggal_lahir'', VDict [(''$lte'', VStr ''1999-06-15''),
                                       (''$gte'', VStr ''1988-06-15'')]),
            (''kota'', VDict [(''$regex'', VStr ''Bandung''), (''$options'', VStr ''i'')]),
            (''agama'', VStr ''Islam'')]"
  have a: "age_conditions day_2024_06_15 q
       = Inr [(''$lte'', VStr ''1999-06-15''), (''$gte'', VStr ''1988-06-15'')]"
    by (simp add: q_def no_fields_def age_conditions_def day_2024_06_15_def py_date_def
        days_in_month_def isoformat_def digit_def)
  have n: "usia_min q \<noteq> None" by (simp add: q_def)
  have c: "lifestyle_filters q (scalar_filters q
             [(''approved'', VBool True),
              (''tanggal_lahir'', VDict [(''$lte'', VStr ''1999-06-15''),
                                         (''$gte'', VStr ''1988-06-15'')])]) = f"
    by (simp add: q_def f_def no_fields_def scalar_filters_def lifestyle_filters_def
        regex_i_def)
  have s: "search_filters day_2024_06_15 q = Inr f"
    by (simp add: search_filters_def a n c)
  have h: "\<forall>u. holds_approved u (''approved'', VBool True) = approved u" by simp
  have d: "approved (sample_user\<lparr> approved := True \<rparr>)" "\<not> approved sample_user"
    by (simp_all add: sample_user_def)
  from search_filters_constraints [OF s, where holds = holds_approved
      and docs = "[(id_A, sample_user\<lparr> approved := True \<rparr>), (id_B, sample_user)]"] h d
  have "map_of f ''pekerjaan'' = text_constraint (q_pekerjaan q)
     \<and> search_profiles holds_approved day_2024_06_15
        [(id_A, sample_user\<lparr> approved := True \<rparr>), (id_B, sample_user)] no_fields
       = Inr [(id_A, sample_user\<lparr> approved := True \<rparr>)]"
    by simp
  moreover have "text_constraint (q_pekerjaan q) = None"
    by (simp add: q_def text_constraint_def)
  ultimately show ?thesis using s unfolding q_def f_def by simp
qed

subsection \<open>Search: the age range on a leap day\<close>

lemma leap_day_needs_leap_year:
  assumes "py_date y 2 29 = Inr t"
  shows "is_leap y"
  using assms by (simp add: py_date_def days_in_month_def split: if_splits)

lemma leap_years_not_adjacent: "is_leap y \<Longrightarrow> \<not> is_leap (y - 1)"
  unfolding is_leap_def by presburger

lemma py_date_common_year:
  "- 2147483648 \<le> y \<Longrightarrow> y \<le> 2147483647 \<Longrightarrow> \<not> is_leap y \<Longrightarrow>
     py_date y 2 29 = Inl ValueError"
  by (simp add: py_date_def days_in_month_def)

lemma py_date_range: "py_date y m d = Inr t \<Longrightarrow> 1 \<le> y \<and> y \<le> 9999"
  by (simp add: py_date_def split: if_splits)

lemma age_conditions_both:
  assumes "usia_min q = Some a" "usia_max q = Some b"
    and "py_date (year today - a) (month today) (day today) = Inr max_birth"
    and "py_date (year today - b - 1) (month today) (day today) = Inr min_birth"
  shows "age_conditions today q
           = Inr [(''$lte'', VStr (isoformat max_birth)), (''$gte'', VStr (isoformat min_birth))]"
  using assms by (simp add: age_conditions_def)

text \<open>
  Claim C3 fails on the code on every 29 February. Let today be a 29 February and \<open>a\<close> an
  age for which the day "today minus \<open>a\<close> years" exists, so that a profile can be born on
  it. The search with \<open>usia_min = a\<close> and \<open>usia_max = a\<close>, which the claim says returns that
  profile, returns nothing: the builder asks for the 29 February of the year before, which
  does not exist, \<open>date(...)\<close> raises \<open>ValueError\<close> at line 119 and nothing catches it. The
  store is not reached.
\<close>

theorem search_on_leap_day_raises:
  assumes "month today = 2" "day today = 29"
    and "py_date (year today - a) (month today) (day today) = Inr birth"
    and "usia_min q = Some a" "usia_max q = Some a"
  shows "search_filters today q = Inl ValueError
       \<and> search_profiles holds today docs q = Inl ValueError"
proof -
  from assms(1-3) have b: "py_date (year today - a) 2 29 = Inr birth" by simp
  then have "is_leap (year today - a)" by (rule leap_day_needs_leap_year)
  then have "\<not> is_leap (year today - a - 1)" by (rule leap_years_not_adjacent)
  moreover from py_date_range [OF b]
  have "- 2147483648 \<le> year today - a - 1" "year today - a - 1 \<le> 2147483647" by simp_all
  ultimately have e: "py_date (year today - a - 1) 2 29 = Inl ValueError"
    by (intro py_date_common_year)
  have "age_conditions today q = Inl ValueError"
    using assms(1,2,4,5) b e by (simp add: age_conditions_def)
  then have "search_filters today q = Inl ValueError"
    using assms(4) by (simp add: search_filters_def)
  then show ?thesis by (simp add: search_profiles_def)
qed

theorem search_on_leap_day_raises_witness:
  "py_date 2004 2 29 = Inr \<lparr> year = 2004, month = 2, day = 29 \<rparr>
   \<and> search_profiles holds_approved day_2024_02_29
        [(id_A, sample_user\<lparr> tanggal_lahir := \<lparr> year = 2004, month = 2, day = 29 \<rparr>,
                              approved := True \<rparr>)]
        (no_fields\<lparr> usia_min := Some 20, usia_max := Some 20 \<rparr>)
      = Inl ValueError"
proof -
  have d: "py_date 2004 2 29 = Inr \<lparr> year = 2004, month = 2, day = 29 \<rparr>"
    by (simp add: py_date_def days_in_month_def is_leap_def)
  have t: "month day_2024_02_29 = 2" "day day_2024_02_29 = 29" "year day_2024_02_29 - 20 = 2004"
    by (simp_all add: day_2024_02_29_def)
  have q: "usia_min (no_fields\<lparr> usia_min := Some 20, usia_max := Some 20 \<rparr>) = Some 20"
    "usia_max (no_fields\<lparr> usia_min := Some 20, usia_max := Some 20 \<rparr>) = Some 20"
    by simp_all
  from search_on_leap_day_raises [where today = day_2024_02_29 and a = 20
      and birth = "\<lparr> year = 2004, month = 2, day = 29 \<rparr>"
      and q = "no_fields\<lparr> usia_min := Some 20, usia_max := Some 20 \<rparr>"
      and holds = holds_approved
      and docs = "[(id_A, sample_user\<lparr> tanggal_lahir := \<lparr> year = 2004, month = 2, day = 29 \<rparr>,
                              approved := True \<rparr>)]"] d t q
  show ?thesis by simp
qed

subsection \<open>Search: the lifestyle filter\<close>

text \<open>
  Claim C4 fails on the code for every lifestyle filter that leaves a sub-attribute out.
  The filter reaches the handler as a \<open>Lifestyle\<close>, in which validation has put the
  default of the schema in place of each sub-attribute that was absent; no field of it is
  \<open>None\<close>, so \<open>model_dump(exclude_none=True)\<close> excludes nothing and the loop of lines
  135-137 ("Lifestyle partial filter") writes seven constraints. An absent sub-attribute
  therefore adds the constraint that the field equals its default.
\<close>

theorem lifestyle_filter_constrains_absent:
  assumes "q_lifestyle q = Some (Lifestyle_validate i)"
    and "search_filters today q = Inr f"
  shows "(given_merokok i = None \<longrightarrow> map_of f ''lifestyle.merokok'' = Some (VStr ''tidak''))
       \<and> (given_alkohol i = None \<longrightarrow> map_of f ''lifestyle.alkohol'' = Some (VStr ''tidak''))
       \<and> (given_pola_makan i = None \<longrightarrow>
            map_of f ''lifestyle.pola_makan'' = Some (VStr ''bebas''))
       \<and> (given_aktivitas_fisik i = None \<longrightarrow>
            map_of f ''lifestyle.aktivitas_fisik'' = Some (VStr ''sedang''))
       \<and> (given_kebiasaan_tidur i = None \<longrightarrow>
            map_of f ''lifestyle.kebiasaan_tidur'' = Some (VStr ''fleksibel''))
       \<and> (given_pengelolaan_waktu i = None \<longrightarrow>
            map_of f ''lifestyle.pengelolaan_waktu'' = Some (VStr ''campuran''))
       \<and> (given_kebiasaan_belanja i = None \<longrightarrow>
            map_of f ''lifestyle.kebiasaan_belanja'' = Some (VStr ''moderat''))"
proof -
  from search_filters_Inr [OF assms(2)] obtain base where
    f: "f = lifestyle_filters q (scalar_filters q base)" by blast
  show ?thesis
    unfolding f lifestyle_filters_Some [OF assms(1)] update_conv'
    by (simp add: Lifestyle_validate_def)
qed

theorem lifestyle_filter_constrains_absent_witness:
  "search_filters day_2024_06_15
      (no_fields\<lparr> q_lifestyle :=
          Some (Lifestyle_validate (no_lifestyle\<lparr> given_merokok := Some Smoking_sering \<rparr>)) \<rparr>)
     = Inr [(''approved'', VBool True),
            (''lifestyle.merokok'', VStr ''sering''),
            (''lifestyle.alkohol'', VStr ''tidak''),
            (''lifestyle.pola_makan'', VStr ''bebas''),
            (''lifestyle.aktivitas_fisik'', VStr ''sedang''),
            (''lifestyle.kebiasaan_tidur'', VStr ''fleksibel''),
            (''lifestyle.pengelolaan_waktu'', VStr ''campuran''),
            (''lifestyle.kebiasaan_belanja'', VStr ''moderat'')]
   \<and> map_of [(''approved'', VBool True),
            (''lifestyle.merokok'', VStr ''sering''),
            (''lifestyle.alkohol'', VStr ''tidak''),
            (''lifestyle.pola_makan'', VStr ''bebas''),
            (''lifestyle.aktivitas_fisik'', VStr ''sedang''),
            (''lifestyle.kebiasaan_tidur'', VStr ''fleksibel''),
            (''lifestyle.pengelolaan_waktu'', VStr ''campuran''),
            (''lifestyle.kebiasaan_belanja'', VStr ''moderat'')] ''lifestyle.alkohol''
       = Some (VStr ''tidak'')"
proof -
  define i where "i = no_lifestyle\<lparr> given_merokok := Some Smoking_sering \<rparr>"
  define q where "q = no_fields\<lparr> q_lifestyle := Some (Lifestyle_validate i) \<rparr>"
  define f where "f = [(''approved'', VBool True),
            (''lifestyle.merokok'', VStr ''sering''),
            (''lifestyle.alkohol'', VStr ''tidak''),
            (''lifestyle.pola_makan'', VStr ''bebas''),
            (''lifestyle.aktivitas_fisik'', VStr ''sedang''),
            (''lifestyle.kebiasaan_tidur'', VStr ''fleksibel''),
            (''lifestyle.pengelolaan_waktu'', VStr ''campuran''),
            (''lifestyle.kebiasaan_belanja'', VStr ''moderat'')]"
  have l: "q_lifestyle q = Some (Lifestyle_validate i)" by (simp add: q_def)
  have s: "search_filters day_2024_06_15 q = Inr f"
    by (simp add: search_filters_def q_def f_def i_def no_fields_def no_lifestyle_def
        scalar_filters_def lifestyle_filters_def Lifestyle_model_dump_def Lifestyle_validate_def)
  have g: "given_alkohol i = None" by (simp add: i_def no_lifestyle_def)
  from lifestyle_filter_constrains_absent [OF l s] g
  have "map_of f ''lifestyle.alkohol'' = Some (VStr ''tidak'')" by simp
  with s show ?thesis unfolding q_def f_def i_def by simp
qed

end
